theory Spec2Isabelle
  imports
    Main
    "HOL-Library.Char_ord"
    "HOL-Library.List_Lexorder"
    "HOL-Library.Multiset"
    "HOL-Library.Sublist"
begin

section \<open>Overview\<close>

text \<open>
  The pure helpers of \<^verbatim>\<open>index.ts\<close> (the interactive front-end that selects a repository, a
  branch and a workflow and dispatches the workflow through the platform CLI), embedded
  function by function. The collaborators the helpers call (the platform CLI, the YAML
  parser and serializer, the file system) are explicit: the first two are arguments of the
  functions that use them, the file system is a state that is passed and returned. An
  exception is a value \<^verbatim>\<open>Inl e\<close> of a sum type.
\<close>

section \<open>JavaScript values and strings\<close>

text \<open>
  A JavaScript string is modelled as a \<^typ>\<open>string\<close>: the list of its code units. The
  inputs of a workflow run are typed \<^verbatim>\<open>Record<string, unknown>\<close>, and the default of a
  workflow input is any YAML value. All that the program does with such a value is to
  convert it to a string, so a number is kept as the string that the runtime's conversion
  of numbers gives for it (\<^verbatim>\<open>30\<close>, \<^verbatim>\<open>0.5\<close>, \<^verbatim>\<open>1e+21\<close>), and an object or an array as the
  string that its own conversion gives (\<^verbatim>\<open>[object Object]\<close>, \<^verbatim>\<open>1,2\<close>). Symbols, whose
  conversion in a template literal throws, are left out.
\<close>

datatype js_value =
    JString string
  | JNumber string
  | JBoolean bool
  | JNull
  | JUndefined
  | JObject string

text \<open>\<^verbatim>\<open>String(v)\<close> and \<^verbatim>\<open>`${v}`\<close>: the abstract operation ToString.\<close>

fun ToString :: "js_value \<Rightarrow> string" where
  "ToString (JString s) = s"
| "ToString (JNumber n) = n"
| "ToString (JBoolean b) = (if b then ''true'' else ''false'')"
| "ToString JNull = ''null''"
| "ToString JUndefined = ''undefined''"
| "ToString (JObject obj) = obj"

text \<open>
  A value read from a parsed document or from an object under a declared type:
  \<^verbatim>\<open>undefined\<close> (the key is absent), \<^verbatim>\<open>null\<close> (the key has no value), or a value of the
  declared type.
\<close>

datatype 'a js_optional = Undefined | Null | Value 'a

text \<open>
  The value of a key whose declared type is a mapping: a mapping, or a value of another
  shape (a string, a number, a boolean or a sequence).
\<close>

datatype 'a yaml_content = NotMapping | Mapping 'a

text \<open>
  A plain object used as a dictionary is the list of its own enumerable entries in
  iteration order, which is the list \<^verbatim>\<open>Object.entries\<close> returns: the keys that are array
  indices first, in ascending order, then the other keys in the order of their creation.
\<close>

type_synonym 'v js_record = "(string \<times> 'v) list"

definition Object_entries :: "'v js_record \<Rightarrow> (string \<times> 'v) list" where
  "Object_entries obj = obj"

section \<open>Run-argument builder\<close>

text \<open>
  The \<^verbatim>\<open>for ... of\<close> loop of \<^verbatim>\<open>buildWorkflowRunArgs\<close>: each iteration pushes two
  elements at the end of the argument array.
\<close>

fun push_inputs :: "(string \<times> js_value) list \<Rightarrow> string list \<Rightarrow> string list" where
  "push_inputs [] workflowRunArgs = workflowRunArgs"
| "push_inputs ((key, val) # rest) workflowRunArgs =
     push_inputs rest (workflowRunArgs @ [''-f'', key @ ''='' @ ToString val])"

definition buildWorkflowRunArgs ::
  "string \<Rightarrow> string \<Rightarrow> string \<Rightarrow> js_value js_record \<Rightarrow> string list" where
  "buildWorkflowRunArgs workflowName repo branch inputGroup =
     push_inputs (Object_entries inputGroup)
       [''workflow'', ''run'', workflowName, ''-R'', repo, ''--ref'', branch]"

section \<open>Display formatter\<close>

text \<open>\<^verbatim>\<open>String.prototype.padEnd\<close> with the default filler: spaces are added after the string.\<close>

definition padEnd :: "nat \<Rightarrow> string \<Rightarrow> string" where
  "padEnd targetLength s = s @ replicate (targetLength - length s) CHR '' ''"

text \<open>\<^verbatim>\<open>Array.prototype.join\<close>.\<close>

fun join :: "string \<Rightarrow> string list \<Rightarrow> string" where
  "join sep [] = []"
| "join sep [x] = x"
| "join sep (x # y # ys) = x @ sep @ join sep (y # ys)"

definition newline :: string where
  "newline = [CHR 0x0A]"

definition input_line :: "string \<times> js_value \<Rightarrow> string" where
  "input_line = (\<lambda>(k, v). ''  '' @ padEnd 15 k @ '' : '' @ ToString v)"

definition display_lines ::
  "string \<Rightarrow> string \<Rightarrow> string \<Rightarrow> js_value js_record \<Rightarrow> string list" where
  "display_lines workflowName repo branch inputGroup =
     [''Running Workflow : '' @ workflowName,
      ''Repo             : '' @ repo,
      ''Branch           : '' @ branch,
      [],
      ''Inputs :'']
     @ map input_line (Object_entries inputGroup)"

definition buildDisplayInfo ::
  "string \<Rightarrow> string \<Rightarrow> string \<Rightarrow> js_value js_record \<Rightarrow> string" where
  "buildDisplayInfo workflowName repo branch inputGroup =
     join newline (display_lines workflowName repo branch inputGroup)"

text \<open>Reading a rendered block back: the lines of a string, split at one separator.\<close>

fun split_on :: "char \<Rightarrow> string \<Rightarrow> string list" where
  "split_on c [] = [[]]"
| "split_on c (x # xs) =
     (if x = c then [] # split_on c xs
      else (case split_on c xs of [] \<Rightarrow> [[x]] | l # ls \<Rightarrow> (x # l) # ls))"

text \<open>
  The specification's wording of the per-input line, "a left-padded key (minimum width
  15)": the filler comes before the key.
\<close>

definition spec_left_padded :: "nat \<Rightarrow> string \<Rightarrow> string" where
  "spec_left_padded targetLength s = replicate (targetLength - length s) CHR '' '' @ s"

section \<open>Default sort of an array\<close>

text \<open>
  \<^verbatim>\<open>Array.prototype.sort()\<close> without a comparator orders the elements by their string
  forms, compared code unit by code unit (the order of \<^typ>\<open>string\<close> here), and is stable.
  The first argument is the string form of an element.
\<close>

definition Array_sort :: "('a \<Rightarrow> string) \<Rightarrow> 'a list \<Rightarrow> 'a list" where
  "Array_sort toStr xs = sort_key toStr xs"

section \<open>Configuration\<close>

record Bookmark =
  nickname :: string
  workflow :: string
  branch :: string
  inputs :: "string js_record"

text \<open>The optional \<^verbatim>\<open>bookmarks\<close> key: \<^term>\<open>None\<close> when it is absent (or null).\<close>

record Repository =
  name :: string
  branches :: "string list"
  bookmarks :: "Bookmark list option"

record RepoConfig =
  repos :: "Repository list"

definition getRepoList :: "RepoConfig \<Rightarrow> string list" where
  "getRepoList config = Array_sort (\<lambda>s. s) (map Repository.name (repos config))"

section \<open>Workflow listing\<close>

record Workflow =
  name :: string
  path :: string
  workflow_id :: int
  state :: string

text \<open>The string form of a plain object.\<close>

definition object_ToString :: "'a \<Rightarrow> string" where
  "object_ToString obj = ''[object Object]''"

definition filterActiveWorkflows :: "Workflow list \<Rightarrow> Workflow list" where
  "filterActiveWorkflows workflows =
     Array_sort object_ToString (filter (\<lambda>w. state w = ''active'') workflows)"

section \<open>Errors\<close>

text \<open>
  A thrown value. \<^term>\<open>Error msg\<close> is \<^verbatim>\<open>new Error(msg)\<close>, \<^term>\<open>TypeError msg\<close> is raised
  by the runtime (a property read on \<^verbatim>\<open>undefined\<close> or \<^verbatim>\<open>null\<close>, an assignment that
  strict mode refuses; the messages are those of Node), and \<^term>\<open>ExternalError msg\<close> is
  a failure of a collaborator (the file system, the YAML library, the platform CLI).
\<close>

datatype js_error = Error string | TypeError string | ExternalError string

definition cannot_read :: "string \<Rightarrow> string \<Rightarrow> js_error" where
  "cannot_read what key =
     TypeError (''Cannot read properties of '' @ what @ '' (reading '' @ [CHR 0x27] @ key
                @ [CHR 0x27] @ '')'')"

text \<open>
  The read \<^verbatim>\<open>v.key\<close> of a key of a mapping type: it throws on \<^verbatim>\<open>undefined\<close> and on
  \<^verbatim>\<open>null\<close>, gives \<^verbatim>\<open>undefined\<close> (the third argument) on a value that is no mapping, and
  the field otherwise.
\<close>

definition field_of :: "('m \<Rightarrow> 'a) \<Rightarrow> 'a \<Rightarrow> 'm yaml_content \<Rightarrow> 'a" where
  "field_of field undefined_value content =
     (case content of NotMapping \<Rightarrow> undefined_value | Mapping m \<Rightarrow> field m)"

definition read_property ::
  "string \<Rightarrow> ('m \<Rightarrow> 'a) \<Rightarrow> 'a \<Rightarrow> 'm yaml_content js_optional \<Rightarrow> js_error + 'a" where
  "read_property key field undefined_value v =
     (case v of
        Undefined \<Rightarrow> Inl (cannot_read ''undefined'' key)
      | Null \<Rightarrow> Inl (cannot_read ''null'' key)
      | Value content \<Rightarrow> Inr (field_of field undefined_value content))"

text \<open>\<^verbatim>\<open>Array.prototype.map\<close> with a callback that may throw: the first exception ends it.\<close>

fun Array_map :: "('a \<Rightarrow> js_error + 'b) \<Rightarrow> 'a list \<Rightarrow> js_error + 'b list" where
  "Array_map f [] = Inr []"
| "Array_map f (x # xs) =
     (case f x of
        Inl e \<Rightarrow> Inl e
      | Inr y \<Rightarrow> (case Array_map f xs of Inl e \<Rightarrow> Inl e | Inr ys \<Rightarrow> Inr (y # ys)))"

section \<open>Workflow input schema\<close>

text \<open>
  Modelled from the spec: the types \<^verbatim>\<open>WorkflowDispatchInput\<close> and
  \<^verbatim>\<open>WorkflowDispatchParsed\<close> of \<^verbatim>\<open>workflow_types.ts\<close>, which is not among the sources.
  The parsed document is cast to the type without a check, so every key may be absent or
  null in what the parser returns (the frequent \<^verbatim>\<open>workflow_dispatch:\<close> without a value is
  null), and the document, the trigger section, the dispatch trigger and an entry of the
  input map may each be a value that is no mapping (as in \<^verbatim>\<open>on: workflow_dispatch\<close>).
  An entry of the input map has a type, a default (any YAML value, \<^term>\<open>JUndefined\<close> when
  the key is absent), a list of options and a required flag.
\<close>

record WorkflowDispatchInput =
  type :: "string js_optional"
  default :: js_value
  options :: "string list js_optional"
  required :: "bool js_optional"

record WorkflowDispatch =
  inputs :: "WorkflowDispatchInput yaml_content js_optional js_record js_optional"

record WorkflowOn =
  workflow_dispatch :: "WorkflowDispatch yaml_content js_optional"

record WorkflowDispatchParsed =
  on :: "WorkflowOn yaml_content js_optional"

text \<open>
  Modelled from the spec: the type guard \<^verbatim>\<open>isChoiceInput\<close> of \<^verbatim>\<open>workflow_types.ts\<close>,
  which is not among the sources ("options populated only for the choice type").
\<close>

definition isChoiceInput :: "WorkflowDispatchInput yaml_content \<Rightarrow> bool" where
  "isChoiceInput input =
     (field_of WorkflowDispatchInput.type Undefined input = Value ''choice'')"

text \<open>
  The interface \<^verbatim>\<open>WorkflowInput\<close>. The type, the options and the required flag are copied
  from the parsed document, so at run time they may be \<^verbatim>\<open>undefined\<close> or \<^verbatim>\<open>null\<close>; the
  default is always a string.
\<close>

record WorkflowInput =
  name :: string
  type :: "string js_optional"
  default :: string
  options :: "string list js_optional"
  required :: "bool js_optional"

text \<open>\<^verbatim>\<open>v ?? d\<close>: the right operand replaces an undefined or null left operand.\<close>

definition nullish_coalesce :: "js_value \<Rightarrow> js_value \<Rightarrow> js_value" where
  "nullish_coalesce v d = (case v of JNull \<Rightarrow> d | JUndefined \<Rightarrow> d | _ \<Rightarrow> v)"

text \<open>
  The arrow function mapped over the entries of the input map. Its first property read,
  \<^verbatim>\<open>input.type\<close>, throws when the entry is null.
\<close>

definition toWorkflowInput ::
  "string \<times> WorkflowDispatchInput yaml_content js_optional \<Rightarrow> js_error + WorkflowInput" where
  "toWorkflowInput = (\<lambda>(name, input).
     case input of
       Undefined \<Rightarrow> Inl (cannot_read ''undefined'' ''type'')
     | Null \<Rightarrow> Inl (cannot_read ''null'' ''type'')
     | Value content \<Rightarrow>
         Inr \<lparr> WorkflowInput.name = name,
               type = field_of WorkflowDispatchInput.type Undefined content,
               default =
                 ToString (nullish_coalesce
                             (field_of WorkflowDispatchInput.default JUndefined content)
                             (JString [])),
               options =
                 (if isChoiceInput content
                  then field_of WorkflowDispatchInput.options Undefined content
                  else Undefined),
               required = field_of WorkflowDispatchInput.required Undefined content \<rparr>)"

text \<open>\<^verbatim>\<open>workflow.on.workflow_dispatch.inputs\<close>: three property reads, each of which may throw.\<close>

definition dispatch_inputs ::
  "WorkflowDispatchParsed yaml_content js_optional \<Rightarrow>
   js_error + WorkflowDispatchInput yaml_content js_optional js_record js_optional" where
  "dispatch_inputs document =
     (case read_property ''on'' on Undefined document of
        Inl e \<Rightarrow> Inl e
      | Inr trigger \<Rightarrow>
          (case read_property ''workflow_dispatch'' workflow_dispatch Undefined trigger of
             Inl e \<Rightarrow> Inl e
           | Inr dispatch \<Rightarrow> read_property ''inputs'' WorkflowDispatch.inputs Undefined dispatch))"

text \<open>\<^verbatim>\<open>Object.entries(inputs ?? {})\<close>: no entry when the input map is undefined or null.\<close>

definition input_entries ::
  "WorkflowDispatchInput yaml_content js_optional js_record js_optional \<Rightarrow>
   (string \<times> WorkflowDispatchInput yaml_content js_optional) list" where
  "input_entries inputMap = Object_entries (case inputMap of Value m \<Rightarrow> m | _ \<Rightarrow> [])"

text \<open>
  The platform CLI call and the YAML parser are collaborators: the first two arguments
  are what \<^verbatim>\<open>gh workflow view ... --yaml\<close> prints and what \<^verbatim>\<open>parseYaml\<close> returns.
\<close>

definition getWorkflowInputs ::
  "(string \<Rightarrow> string \<Rightarrow> string \<Rightarrow> js_error + string) \<Rightarrow>
   (string \<Rightarrow> js_error + WorkflowDispatchParsed yaml_content js_optional) \<Rightarrow>
   string \<Rightarrow> string \<Rightarrow> string \<Rightarrow> js_error + WorkflowInput list" where
  "getWorkflowInputs gh_workflow_view parseYaml workflowName repo branchName =
     (case gh_workflow_view workflowName repo branchName of
        Inl e \<Rightarrow> Inl e
      | Inr stdout \<Rightarrow>
          (case parseYaml stdout of
             Inl e \<Rightarrow> Inl e
           | Inr document \<Rightarrow>
               (case dispatch_inputs document of
                  Inl e \<Rightarrow> Inl e
                | Inr inputMap \<Rightarrow> Array_map toWorkflowInput (input_entries inputMap))))"

section \<open>Prompt-specification builder\<close>

datatype select_option = SelectOption (option_value: string) (option_label: string)

text \<open>
  A deferred prompt is a closure that calls \<^verbatim>\<open>text\<close> or \<^verbatim>\<open>select\<close> of the prompt
  toolkit; it is modelled by the arguments of that call.
\<close>

datatype prompt =
    TextPrompt (message: string) (placeholder: string) (initialValue: string)
  | SelectPrompt (message: string) (select_options: "select_option list") (initialValue: string)

text \<open>
  The object \<^verbatim>\<open>createdGroup\<close>, created by \<^verbatim>\<open>{}\<close>: its own entries in iteration order, and
  whether its prototype has been replaced by a function.
\<close>

record 'v js_object =
  own :: "'v js_record"
  prototype_replaced :: bool

text \<open>
  A key is an array index when it is the decimal form, without a leading zero, of a
  number below \<^verbatim>\<open>4294967295\<close>.
\<close>

definition is_digit :: "char \<Rightarrow> bool" where
  "is_digit c = (48 \<le> (of_char c :: nat) \<and> (of_char c :: nat) \<le> 57)"

definition index_value :: "string \<Rightarrow> nat" where
  "index_value key = foldl (\<lambda>n c. 10 * n + ((of_char c :: nat) - 48)) 0 key"

definition is_array_index :: "string \<Rightarrow> bool" where
  "is_array_index key =
     (key \<noteq> [] \<and> list_all is_digit key \<and> (key = ''0'' \<or> hd key \<noteq> CHR ''0'')
      \<and> index_value key < 4294967295)"

text \<open>
  The creation of an own property: an array index goes before the first own key that is a
  greater array index or no array index, any other key goes last.
\<close>

fun insert_index :: "string \<Rightarrow> 'v \<Rightarrow> 'v js_record \<Rightarrow> 'v js_record" where
  "insert_index key v [] = [(key, v)]"
| "insert_index key v ((k, w) # rest) =
     (if is_array_index k \<and> index_value k < index_value key
      then (k, w) # insert_index key v rest
      else (key, v) # (k, w) # rest)"

definition create_property :: "string \<Rightarrow> 'v \<Rightarrow> 'v js_record \<Rightarrow> 'v js_record" where
  "create_property key v entries =
     (if is_array_index key then insert_index key v entries else entries @ [(key, v)])"

text \<open>
  The assignment \<^verbatim>\<open>obj[key] = f\<close> of a function \<open>f\<close>, in strict mode (the file is a
  module). The key \<^verbatim>\<open>__proto__\<close> reaches the setter that the object inherits: it replaces
  the prototype by \<open>f\<close> and creates no own property. An own property takes the new value
  and keeps its place. Once the prototype is a function, the object inherits the
  read-only properties \<^verbatim>\<open>name\<close> and \<^verbatim>\<open>length\<close> and the accessors \<^verbatim>\<open>caller\<close> and
  \<^verbatim>\<open>arguments\<close>, whose setter throws: an assignment to one of them throws. Any other key
  becomes a new own property.
\<close>

definition set_property :: "'v js_object \<Rightarrow> string \<Rightarrow> 'v \<Rightarrow> js_error + 'v js_object" where
  "set_property obj key v =
     (if key = ''__proto__'' then Inr (obj\<lparr>prototype_replaced := True\<rparr>)
      else if key \<in> fst ` set (own obj)
      then Inr (obj\<lparr>own := map (\<lambda>(k, w). if k = key then (k, v) else (k, w)) (own obj)\<rparr>)
      else if prototype_replaced obj \<and> (key = ''name'' \<or> key = ''length'')
      then Inl (TypeError (''Cannot assign to read only property '' @ [CHR 0x27] @ key
                           @ [CHR 0x27] @ '' of object '' @ [CHR 0x27]
                           @ ''[object Object]'' @ [CHR 0x27]))
      else if prototype_replaced obj \<and> (key = ''caller'' \<or> key = ''arguments'')
      then Inl (TypeError ([CHR 0x27] @ ''caller'' @ [CHR 0x27] @ '', '' @ [CHR 0x27] @ ''callee''
                           @ [CHR 0x27] @ '', and '' @ [CHR 0x27] @ ''arguments'' @ [CHR 0x27]
                           @ '' properties may not be accessed on strict mode functions or the arguments objects for calls to them''))
      else Inr (obj\<lparr>own := create_property key v (own obj)\<rparr>))"

text \<open>
  The \<^verbatim>\<open>switch (input.type)\<close>: the prompt that the matching case stores under the
  input's name, or \<^term>\<open>None\<close> in the \<^verbatim>\<open>default\<close> case. In the placeholder the required
  flag is converted to a string; \<^verbatim>\<open>input.options ?? []\<close> is the empty list when the options
  are undefined or null.
\<close>

definition switch_case :: "WorkflowInput \<Rightarrow> prompt option" where
  "switch_case input =
     (if WorkflowInput.type input = Value ''string'' \<or> WorkflowInput.type input = Value ''number''
         \<or> WorkflowInput.type input = Value ''environment''
      then Some (TextPrompt (''Input '' @ WorkflowInput.name input)
                   (''Required? '' @
                      (case WorkflowInput.required input of
                         Undefined \<Rightarrow> ''undefined''
                       | Null \<Rightarrow> ''null''
                       | Value flag \<Rightarrow> ToString (JBoolean flag)))
                   (WorkflowInput.default input))
      else if WorkflowInput.type input = Value ''boolean''
      then Some (SelectPrompt (''Input '' @ WorkflowInput.name input)
                   [SelectOption ''true'' ''True'', SelectOption ''false'' ''False'']
                   (WorkflowInput.default input))
      else if WorkflowInput.type input = Value ''choice''
      then Some (SelectPrompt (''Input '' @ WorkflowInput.name input)
                   (map (\<lambda>opt. SelectOption opt opt)
                      (case WorkflowInput.options input of Value opts \<Rightarrow> opts | _ \<Rightarrow> []))
                   (WorkflowInput.default input))
      else None)"

text \<open>
  The \<^verbatim>\<open>forEach\<close> loop. The state is the object under construction and the messages
  passed to \<^verbatim>\<open>log.error\<close> so far; an exception thrown by the callback ends the loop and
  the call. The result is the outcome of the call and the messages logged.
\<close>

fun forEach_input ::
  "WorkflowInput list \<Rightarrow> prompt js_object \<Rightarrow> string list \<Rightarrow>
   (js_error + prompt js_object) \<times> string list" where
  "forEach_input [] createdGroup errors = (Inr createdGroup, errors)"
| "forEach_input (input # rest) createdGroup errors =
     (case switch_case input of
        None \<Rightarrow> forEach_input rest createdGroup (errors @ [''Invalid Input Type !''])
      | Some deferred \<Rightarrow>
          (case set_property createdGroup (WorkflowInput.name input) deferred of
             Inl e \<Rightarrow> (Inl e, errors)
           | Inr assigned \<Rightarrow> forEach_input rest assigned errors))"

definition buildInputPrompts ::
  "WorkflowInput list \<Rightarrow> (js_error + prompt js_object) \<times> string list" where
  "buildInputPrompts workflowInputs =
     forEach_input workflowInputs \<lparr>own = [], prototype_replaced = False\<rparr> []"

text \<open>The input types with a \<^verbatim>\<open>case\<close> label in the switch.\<close>

definition has_case :: "WorkflowInput \<Rightarrow> bool" where
  "has_case input =
     (WorkflowInput.type input
        \<in> {Value ''string'', Value ''number'', Value ''environment'', Value ''boolean'',
            Value ''choice''})"

text \<open>
  The order of own keys: no array index follows a key that is no array index, and the
  array indices ascend.
\<close>

definition key_order :: "string \<Rightarrow> string \<Rightarrow> bool" where
  "key_order k k' =
     (if is_array_index k' then is_array_index k \<and> index_value k \<le> index_value k' else True)"

section \<open>Bookmark persistence\<close>

text \<open>
  The file system: the content of each file, the writes performed so far (path and data,
  oldest first), and for each path that cannot be written the message of the error that
  a write to it is rejected with.
\<close>

record file_system =
  files :: "string \<rightharpoonup> string"
  writes :: "(string \<times> string) list"
  write_errors :: "string \<rightharpoonup> string"

definition readFile :: "string \<Rightarrow> file_system \<Rightarrow> js_error + string" where
  "readFile filePath fs =
     (case files fs filePath of
        None \<Rightarrow>
          Inl (ExternalError (''ENOENT: no such file or directory, open '' @ [CHR 0x27]
                              @ filePath @ [CHR 0x27]))
      | Some data \<Rightarrow> Inr data)"

definition writeFile :: "string \<Rightarrow> string \<Rightarrow> file_system \<Rightarrow> js_error + file_system" where
  "writeFile filePath data fs =
     (case write_errors fs filePath of
        Some msg \<Rightarrow> Inl (ExternalError msg)
      | None \<Rightarrow>
          Inr (fs\<lparr>files := (files fs)(filePath \<mapsto> data),
                  writes := writes fs @ [(filePath, data)]\<rparr>))"

text \<open>
  \<^verbatim>\<open>Array.prototype.find\<close> returns a reference to the first element that satisfies the
  predicate; the reference is the element's index, so that the later mutation of the
  found object is an update of the array at that index.
\<close>

fun Array_find :: "('a \<Rightarrow> bool) \<Rightarrow> 'a list \<Rightarrow> nat option" where
  "Array_find p [] = None"
| "Array_find p (x # xs) = (if p x then Some 0 else map_option Suc (Array_find p xs))"

text \<open>\<^verbatim>\<open>if (!repo.bookmarks) repo.bookmarks = []\<close> and \<^verbatim>\<open>repo.bookmarks.push(bookmark)\<close>.\<close>

definition ensure_bookmarks :: "Repository \<Rightarrow> Repository" where
  "ensure_bookmarks repo =
     (case bookmarks repo of None \<Rightarrow> repo\<lparr>bookmarks := Some []\<rparr> | Some bs \<Rightarrow> repo)"

definition push_bookmark :: "Bookmark \<Rightarrow> Repository \<Rightarrow> Repository" where
  "push_bookmark bookmark repo =
     repo\<lparr>bookmarks := map_option (\<lambda>bs. bs @ [bookmark]) (bookmarks repo)\<rparr>"

text \<open>
  The YAML parser and serializer are collaborators, passed as arguments. The parser
  returns a tree: no two places of the parsed configuration share an object. The result
  is the outcome of the promise and the file system after the call; a rejected write
  rejects the promise and leaves the file system as it was.
\<close>

definition saveBookmark ::
  "(string \<Rightarrow> js_error + RepoConfig) \<Rightarrow> (RepoConfig \<Rightarrow> string) \<Rightarrow>
   string \<Rightarrow> string \<Rightarrow> Bookmark \<Rightarrow> file_system \<Rightarrow> (js_error + unit) \<times> file_system" where
  "saveBookmark parseYaml stringifyYaml configPath repoName bookmark fs =
     (case readFile configPath fs of
        Inl e \<Rightarrow> (Inl e, fs)
      | Inr configText \<Rightarrow>
          (case parseYaml configText of
             Inl e \<Rightarrow> (Inl e, fs)
           | Inr config \<Rightarrow>
               (case Array_find (\<lambda>r. Repository.name r = repoName) (repos config) of
                  None \<Rightarrow> (Inl (Error (''Repository '' @ repoName @ '' not found in config'')), fs)
                | Some i \<Rightarrow>
                    (let repo = push_bookmark bookmark (ensure_bookmarks (repos config ! i));
                         updated = config\<lparr>repos := (repos config)[i := repo]\<rparr>
                     in (case writeFile configPath (stringifyYaml updated) fs of
                           Inl e \<Rightarrow> (Inl e, fs)
                         | Inr saved \<Rightarrow> (Inr (), saved))))))"

section \<open>Reading keys back from the rendered output\<close>

text \<open>
  How the inputs are read from the two outputs. In an argument vector they follow the
  seven elements of the prefix, two elements each: the flag \<^verbatim>\<open>-f\<close> and an assignment,
  whose key is the text before its first \<^verbatim>\<open>=\<close> (as the platform CLI splits it). In the
  confirmation summary they follow the five header lines, one line each: the key of a
  line is the text between the two characters of indentation and the first colon,
  without the spaces at its end.
\<close>

fun flag_values :: "string list \<Rightarrow> string list" where
  "flag_values (flag # assignment # rest) =
     (if flag = ''-f'' then assignment # flag_values rest else [])"
| "flag_values rest = []"

definition assignment_key :: "string \<Rightarrow> string" where
  "assignment_key assignment = takeWhile (\<lambda>c. c \<noteq> CHR ''='') assignment"

definition keys_of_arguments :: "string list \<Rightarrow> string list" where
  "keys_of_arguments arguments = map assignment_key (flag_values (drop 7 arguments))"

definition strip_end :: "string \<Rightarrow> string" where
  "strip_end s = rev (dropWhile (\<lambda>c. c = CHR '' '') (rev s))"

definition line_key :: "string \<Rightarrow> string" where
  "line_key line = strip_end (takeWhile (\<lambda>c. c \<noteq> CHR '':'') (drop 2 line))"

definition keys_of_summary :: "string \<Rightarrow> string list" where
  "keys_of_summary summary = map line_key (drop 5 (split_on CHR 0x0A summary))"

section \<open>Example data\<close>

text \<open>
  Concrete inputs, taken from the test suite where it has them, at which the theorems
  below are instantiated.
\<close>

definition example_config_b_a_c :: RepoConfig where
  "example_config_b_a_c = \<lparr>repos =
     [\<lparr>Repository.name = ''owner/repo-b'', branches = [''main''], bookmarks = None\<rparr>,
      \<lparr>Repository.name = ''owner/repo-a'', branches = [''dev''], bookmarks = None\<rparr>,
      \<lparr>Repository.name = ''owner/repo-c'', branches = [''master''], bookmarks = None\<rparr>]\<rparr>"

definition example_config_c_b_a :: RepoConfig where
  "example_config_c_b_a = \<lparr>repos =
     [\<lparr>Repository.name = ''owner/repo-c'', branches = [''master''], bookmarks = None\<rparr>,
      \<lparr>Repository.name = ''owner/repo-b'', branches = [''main''], bookmarks = None\<rparr>,
      \<lparr>Repository.name = ''owner/repo-a'', branches = [''dev''], bookmarks = None\<rparr>]\<rparr>"

definition example_entries :: "(string \<times> WorkflowDispatchInput yaml_content) list" where
  "example_entries =
     [(''environment'',
       Mapping \<lparr>WorkflowDispatchInput.type = Value ''choice'', default = JString ''dev'',
                options = Value [''dev'', ''staging'', ''prod''], required = Value True\<rparr>),
      (''version'',
       Mapping \<lparr>WorkflowDispatchInput.type = Value ''string'', default = JString ''1.0.0'',
                options = Undefined, required = Value False\<rparr>),
      (''debug'',
       Mapping \<lparr>WorkflowDispatchInput.type = Value ''boolean'', default = JBoolean False,
                options = Undefined, required = Value False\<rparr>),
      (''timeout'',
       Mapping \<lparr>WorkflowDispatchInput.type = Value ''number'', default = JNumber ''1e+21'',
                options = Undefined, required = Undefined\<rparr>),
      (''note'',
       Mapping \<lparr>WorkflowDispatchInput.type = Value ''text'', default = JUndefined,
                options = Value [''a''], required = Null\<rparr>),
      (''tag'',
       Mapping \<lparr>WorkflowDispatchInput.type = Undefined, default = JNull,
                options = Undefined, required = Value False\<rparr>),
      (''flag'', NotMapping)]"

definition example_dispatch :: WorkflowDispatch where
  "example_dispatch =
     \<lparr>inputs = Value (map (\<lambda>(key, content). (key, Value content)) example_entries)\<rparr>"

definition example_trigger :: WorkflowOn where
  "example_trigger = \<lparr>workflow_dispatch = Value (Mapping example_dispatch)\<rparr>"

definition example_workflow :: WorkflowDispatchParsed where
  "example_workflow = \<lparr>on = Value (Mapping example_trigger)\<rparr>"

text \<open>
  More documents: a choice input that declares no options, the trigger
  \<^verbatim>\<open>workflow_dispatch:\<close> without a value, an input \<^verbatim>\<open>tag:\<close> without a value, a definition
  with \<^verbatim>\<open>on: push\<close>, a definition whose key \<^verbatim>\<open>on\<close> has no value, a definition without the
  key \<^verbatim>\<open>on\<close>, and the empty document, which the parser returns as \<^verbatim>\<open>null\<close>.
\<close>

definition example_workflow_bare_choice :: WorkflowDispatchParsed where
  "example_workflow_bare_choice =
     \<lparr>on = Value (Mapping \<lparr>workflow_dispatch = Value (Mapping \<lparr>inputs = Value
        [(''environment'',
          Value (Mapping \<lparr>WorkflowDispatchInput.type = Value ''choice'', default = JString ''dev'',
                           options = Undefined, required = Value True\<rparr>))]\<rparr>)\<rparr>)\<rparr>"

definition example_workflow_null_trigger :: WorkflowDispatchParsed where
  "example_workflow_null_trigger = \<lparr>on = Value (Mapping \<lparr>workflow_dispatch = Null\<rparr>)\<rparr>"

definition example_workflow_null_entry :: WorkflowDispatchParsed where
  "example_workflow_null_entry =
     \<lparr>on = Value (Mapping \<lparr>workflow_dispatch = Value (Mapping \<lparr>inputs = Value
        [(''tag'', Null)]\<rparr>)\<rparr>)\<rparr>"

definition example_workflow_push :: WorkflowDispatchParsed where
  "example_workflow_push = \<lparr>on = Value NotMapping\<rparr>"

definition example_workflow_null_on :: WorkflowDispatchParsed where
  "example_workflow_null_on = \<lparr>on = Null\<rparr>"

definition example_workflow_untriggered :: WorkflowDispatchParsed where
  "example_workflow_untriggered = \<lparr>on = Undefined\<rparr>"

definition example_gh_workflow_view :: "string \<Rightarrow> string \<Rightarrow> string \<Rightarrow> js_error + string" where
  "example_gh_workflow_view workflowName repo branchName = Inr (''name: '' @ workflowName)"

definition example_parse_workflow ::
  "string \<Rightarrow> js_error + WorkflowDispatchParsed yaml_content js_optional" where
  "example_parse_workflow text =
     (if text = ''name: Deploy'' then Inr (Value (Mapping example_workflow))
      else if text = ''name: Bare'' then Inr (Value (Mapping example_workflow_bare_choice))
      else if text = ''name: Simple'' then Inr (Value (Mapping example_workflow_null_trigger))
      else if text = ''name: Tag'' then Inr (Value (Mapping example_workflow_null_entry))
      else if text = ''name: Push'' then Inr (Value (Mapping example_workflow_push))
      else if text = ''name: Nightly'' then Inr (Value (Mapping example_workflow_null_on))
      else if text = ''name: Lint'' then Inr (Value (Mapping example_workflow_untriggered))
      else if text = ''name: Empty'' then Inr Null
      else Inl (ExternalError ''YAMLParseError''))"

definition example_inputs :: "WorkflowInput list" where
  "example_inputs =
     [\<lparr>WorkflowInput.name = ''version'', type = Value ''string'', default = ''1.0.0'',
        options = Undefined, required = Value True\<rparr>,
      \<lparr>WorkflowInput.name = ''debug'', type = Value ''boolean'', default = ''false'',
        options = Undefined, required = Value False\<rparr>,
      \<lparr>WorkflowInput.name = ''note'', type = Value ''text'', default = [],
        options = Undefined, required = Value False\<rparr>,
      \<lparr>WorkflowInput.name = ''10'', type = Value ''number'', default = ''30'',
        options = Undefined, required = Undefined\<rparr>,
      \<lparr>WorkflowInput.name = ''environment'', type = Value ''choice'', default = ''dev'',
        options = Value [''dev'', ''staging'', ''prod''], required = Value True\<rparr>,
      \<lparr>WorkflowInput.name = ''2'', type = Value ''environment'', default = ''production'',
        options = Null, required = Null\<rparr>]"

definition example_inputs_same_name :: "WorkflowInput list" where
  "example_inputs_same_name =
     [\<lparr>WorkflowInput.name = ''target'', type = Value ''string'', default = ''a'',
        options = Undefined, required = Value False\<rparr>,
      \<lparr>WorkflowInput.name = ''target'', type = Value ''boolean'', default = ''true'',
        options = Undefined, required = Value False\<rparr>,
      \<lparr>WorkflowInput.name = ''target'', type = Value ''text'', default = ''b'',
        options = Undefined, required = Value False\<rparr>]"

definition example_inputs_proto :: "WorkflowInput list" where
  "example_inputs_proto =
     [\<lparr>WorkflowInput.name = ''__proto__'', type = Value ''string'', default = ''a'',
        options = Undefined, required = Value False\<rparr>]"

definition example_inputGroup :: "js_value js_record" where
  "example_inputGroup = [(''environment'', JString ''prod''), (''version'', JString ''3.0.0'')]"

text \<open>Inputs with a key of more than 15 characters, a key with a space in it and the empty key.\<close>

definition example_inputGroup_wide :: "js_value js_record" where
  "example_inputGroup_wide =
     [(''environment'', JString ''staging''), (''release version number'', JString ''2.0.0''),
      (''dry run'', JBoolean True), ([], JNumber ''3'')]"

text \<open>
  A serializer that writes flow-style YAML without quoting stands for the library's in the
  examples; the example parser reads the one document the examples need.
\<close>

definition example_bookmark_existing :: Bookmark where
  "example_bookmark_existing =
     \<lparr>nickname = ''Existing Bookmark'', workflow = ''old.yml'', branch = ''main'',
      inputs = [(''key'', ''value'')]\<rparr>"

definition example_bookmark_new :: Bookmark where
  "example_bookmark_new =
     \<lparr>nickname = ''New Bookmark'', workflow = ''new.yml'', branch = ''dev'',
      inputs = [(''env'', ''prod'')]\<rparr>"

definition example_config :: RepoConfig where
  "example_config = \<lparr>repos =
     [\<lparr>Repository.name = ''owner/repo1'', branches = [''main''],
        bookmarks = Some [example_bookmark_existing]\<rparr>,
      \<lparr>Repository.name = ''owner/repo2'', branches = [''master''], bookmarks = None\<rparr>]\<rparr>"

definition example_stringify_bookmark :: "Bookmark \<Rightarrow> string" where
  "example_stringify_bookmark b =
     ''{nickname: '' @ nickname b @ '', workflow: '' @ workflow b @ '', branch: '' @ branch b
       @ '', inputs: {'' @ join '', '' (map (\<lambda>(k, v). k @ '': '' @ v) (Bookmark.inputs b)) @ ''}}''"

definition example_stringify_repo :: "Repository \<Rightarrow> string" where
  "example_stringify_repo r =
     ''{name: '' @ Repository.name r @ '', branches: ['' @ join '', '' (branches r) @ '']''
       @ (case bookmarks r of
            None \<Rightarrow> []
          | Some bs \<Rightarrow> '', bookmarks: ['' @ join '', '' (map example_stringify_bookmark bs) @ '']'')
       @ ''}''"

definition example_stringifyYaml :: "RepoConfig \<Rightarrow> string" where
  "example_stringifyYaml config =
     ''repos: ['' @ join '', '' (map example_stringify_repo (repos config)) @ '']''"

definition example_config_text :: string where
  "example_config_text = example_stringifyYaml example_config"

definition example_parseYaml :: "string \<Rightarrow> js_error + RepoConfig" where
  "example_parseYaml text =
     (if text = example_config_text then Inr example_config
      else Inl (ExternalError ''YAMLParseError''))"

definition example_fs :: file_system where
  "example_fs =
     \<lparr>files = [''./config.yml'' \<mapsto> example_config_text], writes = [],
      write_errors = Map.empty\<rparr>"


section \<open>Properties of the run-argument builder\<close>

lemma push_inputs_append:
  "push_inputs entries acc =
     acc @ concat (map (\<lambda>(k, v). [''-f'', k @ ''='' @ ToString v]) entries)"
  by (induction entries arbitrary: acc) auto

text \<open>
  C1. The argument vector is the fixed prefix \<^verbatim>\<open>workflow run w -R r --ref b\<close> followed by
  the two elements \<^verbatim>\<open>-f\<close> and \<^verbatim>\<open>key=value\<close> for each entry of the mapping, in iteration
  order; a string value is rendered as it is; with an empty mapping nothing follows the
  prefix; and the example of the specification evaluates to the expected list.
\<close>

theorem buildWorkflowRunArgs_exact:
  "buildWorkflowRunArgs w r b m =
     [''workflow'', ''run'', w, ''-R'', r, ''--ref'', b]
       @ concat (map (\<lambda>(k, v). [''-f'', k @ ''='' @ ToString v]) (Object_entries m))
   \<and> ToString (JString s) = s
   \<and> buildWorkflowRunArgs w r b [] = [''workflow'', ''run'', w, ''-R'', r, ''--ref'', b]
   \<and> ''-f'' \<notin> set (drop 7 (buildWorkflowRunArgs w r b []))
   \<and> buildWorkflowRunArgs ''Deploy'' ''owner/repo'' ''main''
        [(''environment'', JString ''staging''), (''version'', JString ''2.0.0'')]
      = [''workflow'', ''run'', ''Deploy'', ''-R'', ''owner/repo'', ''--ref'', ''main'',
         ''-f'', ''environment=staging'', ''-f'', ''version=2.0.0'']"
  by (simp add: buildWorkflowRunArgs_def push_inputs_append Object_entries_def)

section \<open>Properties of the workflow filter and of the repository listing\<close>

lemma Array_sort_object: "Array_sort object_ToString xs = xs"
  by (simp add: Array_sort_def object_ToString_def [abs_def] sort_key_const)

lemma filterActive_eq: "filterActiveWorkflows ws = filter (\<lambda>w. state w = ''active'') ws"
  unfolding filterActiveWorkflows_def by (rule Array_sort_object)

text \<open>
  C3. The active-workflow filter returns exactly the entries whose state is the string
  \<^verbatim>\<open>active\<close>, in their original relative order (the default sort compares the string
  forms of the objects, which are all equal, and is stable), and filtering twice is
  filtering once.
\<close>

theorem filterActiveWorkflows_active_only:
  "filterActiveWorkflows ws = filter (\<lambda>w. state w = ''active'') ws
   \<and> set (filterActiveWorkflows ws) = {w \<in> set ws. state w = ''active''}
   \<and> filterActiveWorkflows (filterActiveWorkflows ws) = filterActiveWorkflows ws"
  by (auto simp add: filterActive_eq)

text \<open>
  C7. The repository-name listing is sorted ascending in the code-unit order of strings,
  it is a permutation of the names of the configuration (no name is added or lost, with
  multiplicity), and it is the same for every permutation of the repository list.
\<close>

theorem getRepoList_sorted_perm:
  "sorted (getRepoList c)
   \<and> mset (getRepoList c) = mset (map Repository.name (repos c))
   \<and> (mset (repos c') = mset (repos c) \<longrightarrow> getRepoList c' = getRepoList c)"
proof (intro conjI impI)
  show "sorted (getRepoList c)" by (simp add: getRepoList_def Array_sort_def)
  show "mset (getRepoList c) = mset (map Repository.name (repos c))"
    by (simp add: getRepoList_def Array_sort_def)
  assume "mset (repos c') = mset (repos c)"
  then have "mset (map Repository.name (repos c')) = mset (map Repository.name (repos c))"
    by (metis mset_map)
  then show "getRepoList c' = getRepoList c"
    unfolding getRepoList_def Array_sort_def
    by (intro properties_for_sort) simp_all
qed

text \<open>The listing of two permutations of the configuration of the test suite.\<close>

theorem getRepoList_sorted_perm_witness:
  "mset (repos example_config_c_b_a) = mset (repos example_config_b_a_c)
   \<and> getRepoList example_config_c_b_a = getRepoList example_config_b_a_c
   \<and> getRepoList example_config_b_a_c = [''owner/repo-a'', ''owner/repo-b'', ''owner/repo-c'']"
proof -
  have perm: "mset (repos example_config_c_b_a) = mset (repos example_config_b_a_c)"
    by (simp add: example_config_c_b_a_def example_config_b_a_c_def)
  have "getRepoList example_config_b_a_c = [''owner/repo-a'', ''owner/repo-b'', ''owner/repo-c'']"
    by (simp add: example_config_b_a_c_def getRepoList_def Array_sort_def)
  with perm getRepoList_sorted_perm [of example_config_b_a_c example_config_c_b_a]
  show ?thesis by simp
qed

section \<open>Properties of the input-schema fetcher\<close>

lemma getWorkflowInputs_entries:
  assumes "gh_workflow_view workflowName repo branchName = Inr out"
      and "parseYaml out = Inr (Value document)"
      and "field_of on Undefined document = Value trigger"
      and "field_of workflow_dispatch Undefined trigger = Value dispatch"
  shows "getWorkflowInputs gh_workflow_view parseYaml workflowName repo branchName =
         Array_map toWorkflowInput
           (input_entries (field_of WorkflowDispatch.inputs Undefined dispatch))"
  using assms by (simp add: getWorkflowInputs_def dispatch_inputs_def read_property_def)

lemma toWorkflowInput_Value:
  "\<exists>spec.
      toWorkflowInput (key, Value content) = Inr spec
    \<and> WorkflowInput.name spec = key
    \<and> WorkflowInput.type spec = field_of WorkflowDispatchInput.type Undefined content
    \<and> WorkflowInput.default spec =
        (case field_of WorkflowDispatchInput.default JUndefined content of
           JUndefined \<Rightarrow> [] | JNull \<Rightarrow> [] | v \<Rightarrow> ToString v)
    \<and> WorkflowInput.options spec =
        (if field_of WorkflowDispatchInput.type Undefined content = Value ''choice''
         then field_of WorkflowDispatchInput.options Undefined content else Undefined)
    \<and> WorkflowInput.required spec = field_of WorkflowDispatchInput.required Undefined content"
  by (simp add: toWorkflowInput_def isChoiceInput_def nullish_coalesce_def
           split: js_value.splits)

lemma Array_map_toWorkflowInput:
  "\<exists>specs.
      Array_map toWorkflowInput (map (\<lambda>(key, content). (key, Value content)) entries) = Inr specs
    \<and> list_all2
        (\<lambda>(key, content) spec.
            WorkflowInput.name spec = key
          \<and> WorkflowInput.type spec = field_of WorkflowDispatchInput.type Undefined content
          \<and> WorkflowInput.default spec =
              (case field_of WorkflowDispatchInput.default JUndefined content of
                 JUndefined \<Rightarrow> [] | JNull \<Rightarrow> [] | v \<Rightarrow> ToString v)
          \<and> WorkflowInput.options spec =
              (if field_of WorkflowDispatchInput.type Undefined content = Value ''choice''
               then field_of WorkflowDispatchInput.options Undefined content else Undefined)
          \<and> WorkflowInput.required spec =
              field_of WorkflowDispatchInput.required Undefined content)
        entries specs"
proof (induction entries)
  case Nil
  show ?case by simp
next
  case (Cons entry entries)
  obtain key content where entry: "entry = (key, content)"
    by (cases entry)
  from Cons obtain specs where
    "Array_map toWorkflowInput (map (\<lambda>(key, content). (key, Value content)) entries) = Inr specs"
    and "list_all2
        (\<lambda>(key, content) spec.
            WorkflowInput.name spec = key
          \<and> WorkflowInput.type spec = field_of WorkflowDispatchInput.type Undefined content
          \<and> WorkflowInput.default spec =
              (case field_of WorkflowDispatchInput.default JUndefined content of
                 JUndefined \<Rightarrow> [] | JNull \<Rightarrow> [] | v \<Rightarrow> ToString v)
          \<and> WorkflowInput.options spec =
              (if field_of WorkflowDispatchInput.type Undefined content = Value ''choice''
               then field_of WorkflowDispatchInput.options Undefined content else Undefined)
          \<and> WorkflowInput.required spec =
              field_of WorkflowDispatchInput.required Undefined content)
        entries specs"
    by blast
  with toWorkflowInput_Value [of key content] show ?case
    by (auto simp add: entry)
qed

text \<open>
  C2 (as amended). Let the parsed definition, its trigger section \<^verbatim>\<open>on\<close> and the trigger
  \<^verbatim>\<open>workflow_dispatch\<close> of that section each be present and not null, and let no entry of
  the trigger's input map be null. Then the fetcher returns one input specification per
  entry of the input map (none for an empty, absent or null map), in the order of the
  map, whatever the type of the entry: the name is the key, the type and the required
  flag are copied, the default is the string form of the declared default and the empty
  string when the default is absent or null, and the options are the declared options of
  the entry when its type is \<^verbatim>\<open>choice\<close> (absent when the entry declares none) and absent
  for every other type.
\<close>

theorem getWorkflowInputs_projection:
  assumes "gh_workflow_view workflowName repo branchName = Inr out"
      and "parseYaml out = Inr (Value document)"
      and "field_of on Undefined document = Value trigger"
      and "field_of workflow_dispatch Undefined trigger = Value dispatch"
      and "input_entries (field_of WorkflowDispatch.inputs Undefined dispatch) =
             map (\<lambda>(key, content). (key, Value content)) entries"
  shows "\<exists>specs.
           getWorkflowInputs gh_workflow_view parseYaml workflowName repo branchName = Inr specs
         \<and> list_all2
             (\<lambda>(key, content) spec.
                 WorkflowInput.name spec = key
               \<and> WorkflowInput.type spec = field_of WorkflowDispatchInput.type Undefined content
               \<and> WorkflowInput.default spec =
                   (case field_of WorkflowDispatchInput.default JUndefined content of
                      JUndefined \<Rightarrow> [] | JNull \<Rightarrow> [] | v \<Rightarrow> ToString v)
               \<and> WorkflowInput.options spec =
                   (if field_of WorkflowDispatchInput.type Undefined content = Value ''choice''
                    then field_of WorkflowDispatchInput.options Undefined content
                    else Undefined)
               \<and> WorkflowInput.required spec =
                   field_of WorkflowDispatchInput.required Undefined content)
             entries specs"
proof -
  from assms(1-4)
  have "getWorkflowInputs gh_workflow_view parseYaml workflowName repo branchName =
         Array_map toWorkflowInput
           (input_entries (field_of WorkflowDispatch.inputs Undefined dispatch))"
    by (rule getWorkflowInputs_entries)
  then have "getWorkflowInputs gh_workflow_view parseYaml workflowName repo branchName =
         Array_map toWorkflowInput (map (\<lambda>(key, content). (key, Value content)) entries)"
    by (simp only: assms(5))
  with Array_map_toWorkflowInput [of entries] show ?thesis
    by simp
qed

text \<open>
  The projection of a definition with a choice, a string, a boolean and a number input,
  an input of an unrecognized type, an input without a type and an input whose value is
  no mapping.
\<close>

theorem getWorkflowInputs_projection_witness:
  "example_gh_workflow_view ''Deploy'' ''owner/repo'' ''main'' = Inr ''name: Deploy''
   \<and> example_parse_workflow ''name: Deploy'' = Inr (Value (Mapping example_workflow))
   \<and> field_of on Undefined (Mapping example_workflow) = Value (Mapping example_trigger)
   \<and> field_of workflow_dispatch Undefined (Mapping example_trigger) =
       Value (Mapping example_dispatch)
   \<and> input_entries (field_of WorkflowDispatch.inputs Undefined (Mapping example_dispatch)) =
       map (\<lambda>(key, content). (key, Value content)) example_entries
   \<and> (\<exists>specs.
         getWorkflowInputs example_gh_workflow_view example_parse_workflow
           ''Deploy'' ''owner/repo'' ''main'' = Inr specs
       \<and> list_all2
             (\<lambda>(key, content) spec.
                 WorkflowInput.name spec = key
               \<and> WorkflowInput.type spec = field_of WorkflowDispatchInput.type Undefined content
               \<and> WorkflowInput.default spec =
                   (case field_of WorkflowDispatchInput.default JUndefined content of
                      JUndefined \<Rightarrow> [] | JNull \<Rightarrow> [] | v \<Rightarrow> ToString v)
               \<and> WorkflowInput.options spec =
                   (if field_of WorkflowDispatchInput.type Undefined content = Value ''choice''
                    then field_of WorkflowDispatchInput.options Undefined content
                    else Undefined)
               \<and> WorkflowInput.required spec =
                   field_of WorkflowDispatchInput.required Undefined content)
             example_entries specs)
   \<and> getWorkflowInputs example_gh_workflow_view example_parse_workflow
        ''Deploy'' ''owner/repo'' ''main'' =
      Inr [\<lparr>WorkflowInput.name = ''environment'', type = Value ''choice'', default = ''dev'',
             options = Value [''dev'', ''staging'', ''prod''], required = Value True\<rparr>,
           \<lparr>WorkflowInput.name = ''version'', type = Value ''string'', default = ''1.0.0'',
             options = Undefined, required = Value False\<rparr>,
           \<lparr>WorkflowInput.name = ''debug'', type = Value ''boolean'', default = ''false'',
             options = Undefined, required = Value False\<rparr>,
           \<lparr>WorkflowInput.name = ''timeout'', type = Value ''number'', default = ''1e+21'',
             options = Undefined, required = Undefined\<rparr>,
           \<lparr>WorkflowInput.name = ''note'', type = Value ''text'', default = [],
             options = Undefined, required = Null\<rparr>,
           \<lparr>WorkflowInput.name = ''tag'', type = Undefined, default = [],
             options = Undefined, required = Value False\<rparr>,
           \<lparr>WorkflowInput.name = ''flag'', type = Undefined, default = [],
             options = Undefined, required = Undefined\<rparr>]"
proof -
  have a: "example_gh_workflow_view ''Deploy'' ''owner/repo'' ''main'' = Inr ''name: Deploy''"
    by (simp add: example_gh_workflow_view_def)
  have b: "example_parse_workflow ''name: Deploy'' = Inr (Value (Mapping example_workflow))"
    by (simp add: example_parse_workflow_def)
  have c: "field_of on Undefined (Mapping example_workflow) = Value (Mapping example_trigger)"
    by (simp add: field_of_def example_workflow_def)
  have d: "field_of workflow_dispatch Undefined (Mapping example_trigger) =
       Value (Mapping example_dispatch)"
    by (simp add: field_of_def example_trigger_def)
  have e: "input_entries (field_of WorkflowDispatch.inputs Undefined (Mapping example_dispatch)) =
       map (\<lambda>(key, content). (key, Value content)) example_entries"
    by (simp add: field_of_def example_dispatch_def input_entries_def Object_entries_def)
  have f: "getWorkflowInputs example_gh_workflow_view example_parse_workflow
        ''Deploy'' ''owner/repo'' ''main'' =
      Inr [\<lparr>WorkflowInput.name = ''environment'', type = Value ''choice'', default = ''dev'',
             options = Value [''dev'', ''staging'', ''prod''], required = Value True\<rparr>,
           \<lparr>WorkflowInput.name = ''version'', type = Value ''string'', default = ''1.0.0'',
             options = Undefined, required = Value False\<rparr>,
           \<lparr>WorkflowInput.name = ''debug'', type = Value ''boolean'', default = ''false'',
             options = Undefined, required = Value False\<rparr>,
           \<lparr>WorkflowInput.name = ''timeout'', type = Value ''number'', default = ''1e+21'',
             options = Undefined, required = Undefined\<rparr>,
           \<lparr>WorkflowInput.name = ''note'', type = Value ''text'', default = [],
             options = Undefined, required = Null\<rparr>,
           \<lparr>WorkflowInput.name = ''tag'', type = Undefined, default = [],
             options = Undefined, required = Value False\<rparr>,
           \<lparr>WorkflowInput.name = ''flag'', type = Undefined, default = [],
             options = Undefined, required = Undefined\<rparr>]"
    by (simp add: getWorkflowInputs_def example_gh_workflow_view_def example_parse_workflow_def
        example_workflow_def example_trigger_def example_dispatch_def example_entries_def
        dispatch_inputs_def read_property_def field_of_def input_entries_def Object_entries_def
        toWorkflowInput_def isChoiceInput_def nullish_coalesce_def)
  from a b c d e
  have "\<exists>specs.
         getWorkflowInputs example_gh_workflow_view example_parse_workflow
           ''Deploy'' ''owner/repo'' ''main'' = Inr specs
       \<and> list_all2
             (\<lambda>(key, content) spec.
                 WorkflowInput.name spec = key
               \<and> WorkflowInput.type spec = field_of WorkflowDispatchInput.type Undefined content
               \<and> WorkflowInput.default spec =
                   (case field_of WorkflowDispatchInput.default JUndefined content of
                      JUndefined \<Rightarrow> [] | JNull \<Rightarrow> [] | v \<Rightarrow> ToString v)
               \<and> WorkflowInput.options spec =
                   (if field_of WorkflowDispatchInput.type Undefined content = Value ''choice''
                    then field_of WorkflowDispatchInput.options Undefined content
                    else Undefined)
               \<and> WorkflowInput.required spec =
                   field_of WorkflowDispatchInput.required Undefined content)
             example_entries specs"
    by (rule getWorkflowInputs_projection)
  with a b c d e f show ?thesis
    by blast
qed

text \<open>
  C2 as stated fails. An entry of type \<^verbatim>\<open>choice\<close> that declares no options list is
  projected to a specification of type \<^verbatim>\<open>choice\<close> whose options are absent. And not
  every parsed definition is projected: the call throws a \<^verbatim>\<open>TypeError\<close> when the trigger
  is written \<^verbatim>\<open>workflow_dispatch:\<close> without a value, when an entry of the input map has no
  value, when the definition has other triggers only (\<^verbatim>\<open>on: push\<close>), when its key \<^verbatim>\<open>on\<close>
  has no value, when it has no key \<^verbatim>\<open>on\<close>, and when the document is empty.
\<close>

theorem getWorkflowInputs_absent_options_or_throws:
  "getWorkflowInputs example_gh_workflow_view example_parse_workflow ''Bare'' ''owner/repo'' ''main'' =
     Inr [\<lparr>WorkflowInput.name = ''environment'', type = Value ''choice'', default = ''dev'',
            options = Undefined, required = Value True\<rparr>]
   \<and> getWorkflowInputs example_gh_workflow_view example_parse_workflow ''Simple'' ''owner/repo'' ''main'' =
     Inl (TypeError ''Cannot read properties of null (reading 'inputs')'')
   \<and> getWorkflowInputs example_gh_workflow_view example_parse_workflow ''Tag'' ''owner/repo'' ''main'' =
     Inl (TypeError ''Cannot read properties of null (reading 'type')'')
   \<and> getWorkflowInputs example_gh_workflow_view example_parse_workflow ''Push'' ''owner/repo'' ''main'' =
     Inl (TypeError ''Cannot read properties of undefined (reading 'inputs')'')
   \<and> getWorkflowInputs example_gh_workflow_view example_parse_workflow ''Nightly'' ''owner/repo'' ''main'' =
     Inl (TypeError ''Cannot read properties of null (reading 'workflow_dispatch')'')
   \<and> getWorkflowInputs example_gh_workflow_view example_parse_workflow ''Lint'' ''owner/repo'' ''main'' =
     Inl (TypeError ''Cannot read properties of undefined (reading 'workflow_dispatch')'')
   \<and> getWorkflowInputs example_gh_workflow_view example_parse_workflow ''Empty'' ''owner/repo'' ''main'' =
     Inl (TypeError ''Cannot read properties of null (reading 'on')'')"
  by (simp add: getWorkflowInputs_def example_gh_workflow_view_def example_parse_workflow_def
        example_workflow_bare_choice_def example_workflow_null_trigger_def
        example_workflow_null_entry_def example_workflow_push_def
        example_workflow_null_on_def
        example_workflow_untriggered_def dispatch_inputs_def read_property_def field_of_def
        cannot_read_def input_entries_def Object_entries_def toWorkflowInput_def
        isChoiceInput_def nullish_coalesce_def)
section \<open>Properties of the prompt-specification builder\<close>

lemma has_case_iff: "has_case i \<longleftrightarrow> switch_case i \<noteq> None"
  by (auto simp add: has_case_def switch_case_def)

lemma key_order_trans: "key_order a b \<Longrightarrow> key_order b c \<Longrightarrow> key_order a c"
  by (auto simp add: key_order_def split: if_splits)

lemma mset_insert_index: "mset (insert_index key v entries) = add_mset (key, v) (mset entries)"
  by (induction entries) auto

lemma set_insert_index: "set (insert_index key v entries) = insert (key, v) (set entries)"
  using mset_insert_index [of key v entries, THEN arg_cong, of set_mset] by simp

lemma sorted_insert_index:
  assumes "is_array_index key" and "sorted_wrt key_order (map fst entries)"
  shows "sorted_wrt key_order (map fst (insert_index key v entries))"
  using assms(2)
proof (induction entries)
  case Nil
  show ?case by simp
next
  case (Cons entry entries)
  obtain k w where entry: "entry = (k, w)"
    by (cases entry)
  from Cons.prems have rest: "sorted_wrt key_order (map fst entries)"
    and first: "\<forall>x \<in> set entries. key_order k (fst x)"
    by (auto simp add: entry)
  show ?case
  proof (cases "is_array_index k \<and> index_value k < index_value key")
    case True
    then have "key_order k key"
      using assms(1) by (simp add: key_order_def)
    with True first Cons.IH [OF rest] show ?thesis
      by (auto simp add: entry set_insert_index)
  next
    case False
    then have "key_order key k"
      using assms(1) by (auto simp add: key_order_def)
    then have "\<forall>x \<in> set entries. key_order key (fst x)"
      using first key_order_trans by blast
    with False \<open>key_order key k\<close> first rest show ?thesis
      by (auto simp add: entry)
  qed
qed

lemma filter_insert_index:
  "is_array_index key \<Longrightarrow>
   filter (\<lambda>k. \<not> is_array_index k) (map fst (insert_index key v entries)) =
   filter (\<lambda>k. \<not> is_array_index k) (map fst entries)"
  by (induction entries) auto

lemma mset_create_property:
  "mset (create_property key v entries) = add_mset (key, v) (mset entries)"
  by (simp add: create_property_def mset_insert_index)

lemma sorted_create_property:
  "sorted_wrt key_order (map fst entries) \<Longrightarrow>
   sorted_wrt key_order (map fst (create_property key v entries))"
  by (simp add: create_property_def sorted_insert_index sorted_wrt_append key_order_def)

lemma filter_create_property:
  "filter (\<lambda>k. \<not> is_array_index k) (map fst (create_property key v entries)) =
   filter (\<lambda>k. \<not> is_array_index k) (map fst entries)
   @ filter (\<lambda>k. \<not> is_array_index k) [key]"
  by (simp add: create_property_def filter_insert_index)

lemma set_property_fresh:
  assumes "key \<noteq> ''__proto__''" and "key \<notin> fst ` set (own obj)"
      and "\<not> prototype_replaced obj"
  shows "set_property obj key v = Inr (obj\<lparr>own := create_property key v (own obj)\<rparr>)"
  using assms by (simp add: set_property_def)

text \<open>
  The loop on inputs with pairwise distinct names, none of which is a key of the object
  yet, and none of the recognized ones named \<^verbatim>\<open>__proto__\<close>: every recognized input creates
  a property.
\<close>

lemma forEach_input_distinct:
  assumes "distinct (map WorkflowInput.name specs)"
      and "fst ` set (own obj) \<inter> WorkflowInput.name ` set specs = {}"
      and "\<not> prototype_replaced obj"
      and "''__proto__'' \<notin> WorkflowInput.name ` set (filter has_case specs)"
  shows "\<exists>created.
      forEach_input specs obj errs =
        (Inr created,
         errs @ replicate (length (filter (\<lambda>i. \<not> has_case i) specs)) ''Invalid Input Type !'')
    \<and> \<not> prototype_replaced created
    \<and> mset (own created) =
        mset (own obj)
        + mset (map (\<lambda>i. (WorkflowInput.name i, the (switch_case i))) (filter has_case specs))
    \<and> (sorted_wrt key_order (map fst (own obj))
         \<longrightarrow> sorted_wrt key_order (map fst (own created)))
    \<and> filter (\<lambda>k. \<not> is_array_index k) (map fst (own created)) =
        filter (\<lambda>k. \<not> is_array_index k) (map fst (own obj))
        @ filter (\<lambda>k. \<not> is_array_index k) (map WorkflowInput.name (filter has_case specs))"
  using assms
proof (induction specs arbitrary: obj errs)
  case Nil
  then show ?case by simp
next
  case (Cons i specs)
  from Cons.prems(1) have rest_distinct: "distinct (map WorkflowInput.name specs)"
    by simp
  from Cons.prems(4)
  have rest_proto: "''__proto__'' \<notin> WorkflowInput.name ` set (filter has_case specs)"
    by (auto split: if_splits)
  show ?case
  proof (cases "switch_case i")
    case None
    then have no_case: "\<not> has_case i"
      by (simp add: has_case_iff)
    have step: "forEach_input (i # specs) obj errs =
                forEach_input specs obj (errs @ [''Invalid Input Type !''])"
      using None by simp
    have disjoint: "fst ` set (own obj) \<inter> WorkflowInput.name ` set specs = {}"
      using Cons.prems(2) by auto
    from Cons.IH [OF rest_distinct disjoint Cons.prems(3) rest_proto,
                  of "errs @ [''Invalid Input Type !'']"]
    show ?thesis
      unfolding step using no_case by (simp add: replicate_append_same)
  next
    case (Some p)
    then have recognized: "has_case i"
      by (simp add: has_case_iff)
    let ?assigned = "obj\<lparr>own := create_property (WorkflowInput.name i) p (own obj)\<rparr>"
    have fresh: "WorkflowInput.name i \<notin> fst ` set (own obj)"
      using Cons.prems(2) by auto
    have not_proto: "WorkflowInput.name i \<noteq> ''__proto__''"
      using Cons.prems(4) recognized by auto
    have assigned: "set_property obj (WorkflowInput.name i) p = Inr ?assigned"
      using not_proto fresh Cons.prems(3) by (rule set_property_fresh)
    have step: "forEach_input (i # specs) obj errs = forEach_input specs ?assigned errs"
      using Some assigned by simp
    have "set (own ?assigned) = insert (WorkflowInput.name i, p) (set (own obj))"
      using mset_create_property [of "WorkflowInput.name i" p "own obj", THEN arg_cong, of set_mset]
      by simp
    then have disjoint: "fst ` set (own ?assigned) \<inter> WorkflowInput.name ` set specs = {}"
      using Cons.prems(1,2) by auto
    have kept: "\<not> prototype_replaced ?assigned"
      using Cons.prems(3) by simp
    from Cons.IH [OF rest_distinct disjoint kept rest_proto, of errs]
    obtain created where
      run: "forEach_input specs ?assigned errs =
         (Inr created,
          errs @ replicate (length (filter (\<lambda>i. \<not> has_case i) specs)) ''Invalid Input Type !'')"
      and proto: "\<not> prototype_replaced created"
      and entries: "mset (own created) =
         mset (own ?assigned)
         + mset (map (\<lambda>i. (WorkflowInput.name i, the (switch_case i))) (filter has_case specs))"
      and order: "sorted_wrt key_order (map fst (own ?assigned))
         \<longrightarrow> sorted_wrt key_order (map fst (own created))"
      and others: "filter (\<lambda>k. \<not> is_array_index k) (map fst (own created)) =
         filter (\<lambda>k. \<not> is_array_index k) (map fst (own ?assigned))
         @ filter (\<lambda>k. \<not> is_array_index k) (map WorkflowInput.name (filter has_case specs))"
      by blast
    have "forEach_input (i # specs) obj errs =
         (Inr created,
          errs @ replicate (length (filter (\<lambda>i. \<not> has_case i) (i # specs)))
                   ''Invalid Input Type !'')"
      unfolding step run using recognized by simp
    moreover have "mset (own created) =
         mset (own obj)
         + mset (map (\<lambda>i. (WorkflowInput.name i, the (switch_case i)))
                  (filter has_case (i # specs)))"
      unfolding entries using recognized Some by (simp add: mset_create_property)
    moreover have "sorted_wrt key_order (map fst (own obj))
         \<longrightarrow> sorted_wrt key_order (map fst (own created))"
      using order by (simp add: sorted_create_property)
    moreover have "filter (\<lambda>k. \<not> is_array_index k) (map fst (own created)) =
         filter (\<lambda>k. \<not> is_array_index k) (map fst (own obj))
         @ filter (\<lambda>k. \<not> is_array_index k)
             (map WorkflowInput.name (filter has_case (i # specs)))"
      unfolding others using recognized by (simp add: filter_create_property)
    ultimately show ?thesis
      using proto by blast
  qed
qed

lemma buildInputPrompts_distinct:
  assumes "distinct (map WorkflowInput.name specs)"
      and "''__proto__'' \<notin> WorkflowInput.name ` set (filter has_case specs)"
  shows "\<exists>created.
      buildInputPrompts specs =
        (Inr created,
         replicate (length (filter (\<lambda>i. \<not> has_case i) specs)) ''Invalid Input Type !'')
    \<and> \<not> prototype_replaced created
    \<and> mset (own created) =
        mset (map (\<lambda>i. (WorkflowInput.name i, the (switch_case i))) (filter has_case specs))
    \<and> sorted_wrt key_order (map fst (own created))
    \<and> filter (\<lambda>k. \<not> is_array_index k) (map fst (own created)) =
        filter (\<lambda>k. \<not> is_array_index k) (map WorkflowInput.name (filter has_case specs))"
  using forEach_input_distinct [of specs "\<lparr>own = [], prototype_replaced = False\<rparr>" "[]"] assms
  by (simp add: buildInputPrompts_def)

lemma entries_of_distinct:
  assumes "distinct (map WorkflowInput.name specs)"
      and "mset entries =
           mset (map (\<lambda>i. (WorkflowInput.name i, the (switch_case i))) (filter has_case specs))"
      and "i \<in> set specs"
  shows "map_of entries (WorkflowInput.name i) = switch_case i"
proof -
  have "mset (map fst entries) =
        mset (map fst (map (\<lambda>i. (WorkflowInput.name i, the (switch_case i)))
                         (filter has_case specs)))"
    by (simp only: mset_map assms(2))
  then have keys: "mset (map fst entries) = mset (map WorkflowInput.name (filter has_case specs))"
    by (simp add: comp_def)
  have "distinct (map WorkflowInput.name (filter has_case specs))"
    using assms(1) by (rule distinct_map_filter)
  with mset_eq_imp_distinct_iff [OF keys] have unique: "distinct (map fst entries)"
    by blast
  have members: "set entries =
        (\<lambda>i. (WorkflowInput.name i, the (switch_case i))) ` set (filter has_case specs)"
    using assms(2) [THEN arg_cong, of set_mset] by simp
  show ?thesis
  proof (cases "has_case i")
    case True
    then obtain p where p: "switch_case i = Some p"
      by (auto simp add: has_case_iff)
    with True assms(3) have "(WorkflowInput.name i, p) \<in> set entries"
      unfolding members by force
    with unique show ?thesis
      by (simp add: p)
  next
    case False
    have "WorkflowInput.name i \<notin> WorkflowInput.name ` set (filter has_case specs)"
    proof
      assume "WorkflowInput.name i \<in> WorkflowInput.name ` set (filter has_case specs)"
      then obtain j where "j \<in> set specs" and "has_case j"
        and "WorkflowInput.name j = WorkflowInput.name i"
        by auto
      with assms(1,3) have "j = i"
        by (simp add: distinct_map inj_on_def)
      with \<open>has_case j\<close> False show False
        by simp
    qed
    then have "WorkflowInput.name i \<notin> fst ` set entries"
      unfolding members by (simp add: image_image)
    with False show ?thesis
      by (simp add: map_of_eq_None_iff has_case_iff)
  qed
qed

text \<open>
  C6 (as amended). For a list of input specifications with pairwise distinct names in
  which no input of type \<^verbatim>\<open>string\<close>, \<^verbatim>\<open>number\<close>, \<^verbatim>\<open>environment\<close>, \<^verbatim>\<open>boolean\<close> or \<^verbatim>\<open>choice\<close>
  is named \<^verbatim>\<open>__proto__\<close>, the call returns a record that has one deferred prompt per
  input of these types, keyed by the input's name: a text prompt for the first three
  types, for \<^verbatim>\<open>boolean\<close> a select with the options \<^verbatim>\<open>true\<close>/\<^verbatim>\<open>True\<close> and
  \<^verbatim>\<open>false\<close>/\<^verbatim>\<open>False\<close> pre-selected to the default, for \<^verbatim>\<open>choice\<close> a select whose options
  are the input's options with equal value and label. An input of any other type has no
  entry in the record, and one diagnostic is emitted for each such input. The keys of the
  record are the names of the inputs of the five types; they are iterated with the array
  indices first, in ascending order, and the other names after them in the order of the
  list.
\<close>

theorem buildInputPrompts_distinct_names:
  assumes "distinct (map WorkflowInput.name specs)"
      and "''__proto__'' \<notin> WorkflowInput.name ` set (filter has_case specs)"
  shows "\<exists>createdGroup.
       buildInputPrompts specs =
         (Inr createdGroup,
          replicate (length (filter (\<lambda>i. \<not> has_case i) specs)) ''Invalid Input Type !'')
     \<and> \<not> prototype_replaced createdGroup
     \<and> mset (map fst (own createdGroup)) =
         mset (map WorkflowInput.name (filter has_case specs))
     \<and> sorted_wrt key_order (map fst (own createdGroup))
     \<and> filter (\<lambda>k. \<not> is_array_index k) (map fst (own createdGroup)) =
         filter (\<lambda>k. \<not> is_array_index k) (map WorkflowInput.name (filter has_case specs))
     \<and> (\<forall>i \<in> set specs.
           (WorkflowInput.type i \<in> {Value ''string'', Value ''number'', Value ''environment''} \<longrightarrow>
              map_of (own createdGroup) (WorkflowInput.name i) =
                Some (TextPrompt (''Input '' @ WorkflowInput.name i)
                        (''Required? '' @
                           (case WorkflowInput.required i of
                              Undefined \<Rightarrow> ''undefined''
                            | Null \<Rightarrow> ''null''
                            | Value flag \<Rightarrow> if flag then ''true'' else ''false''))
                        (WorkflowInput.default i)))
         \<and> (WorkflowInput.type i = Value ''boolean'' \<longrightarrow>
              map_of (own createdGroup) (WorkflowInput.name i) =
                Some (SelectPrompt (''Input '' @ WorkflowInput.name i)
                        [SelectOption ''true'' ''True'', SelectOption ''false'' ''False'']
                        (WorkflowInput.default i)))
         \<and> (WorkflowInput.type i = Value ''choice'' \<longrightarrow>
              map_of (own createdGroup) (WorkflowInput.name i) =
                Some (SelectPrompt (''Input '' @ WorkflowInput.name i)
                        (map (\<lambda>opt. SelectOption opt opt)
                           (case WorkflowInput.options i of Value opts \<Rightarrow> opts | _ \<Rightarrow> []))
                        (WorkflowInput.default i)))
         \<and> (WorkflowInput.type i
               \<notin> {Value ''string'', Value ''number'', Value ''environment'', Value ''boolean'',
                   Value ''choice''} \<longrightarrow>
              map_of (own createdGroup) (WorkflowInput.name i) = None))"
proof -
  from buildInputPrompts_distinct [OF assms] obtain created where
    built: "buildInputPrompts specs =
        (Inr created,
         replicate (length (filter (\<lambda>i. \<not> has_case i) specs)) ''Invalid Input Type !'')"
    and proto: "\<not> prototype_replaced created"
    and entries: "mset (own created) =
        mset (map (\<lambda>i. (WorkflowInput.name i, the (switch_case i))) (filter has_case specs))"
    and order: "sorted_wrt key_order (map fst (own created))"
    and others: "filter (\<lambda>k. \<not> is_array_index k) (map fst (own created)) =
        filter (\<lambda>k. \<not> is_array_index k) (map WorkflowInput.name (filter has_case specs))"
    by blast
  have "mset (map fst (own created)) =
        mset (map fst (map (\<lambda>i. (WorkflowInput.name i, the (switch_case i)))
                         (filter has_case specs)))"
    by (simp only: mset_map entries)
  then have keys: "mset (map fst (own created)) =
        mset (map WorkflowInput.name (filter has_case specs))"
    by (simp add: comp_def)
  have prompts: "\<forall>i \<in> set specs.
           (WorkflowInput.type i \<in> {Value ''string'', Value ''number'', Value ''environment''} \<longrightarrow>
              map_of (own created) (WorkflowInput.name i) =
                Some (TextPrompt (''Input '' @ WorkflowInput.name i)
                        (''Required? '' @
                           (case WorkflowInput.required i of
                              Undefined \<Rightarrow> ''undefined''
                            | Null \<Rightarrow> ''null''
                            | Value flag \<Rightarrow> if flag then ''true'' else ''false''))
                        (WorkflowInput.default i)))
         \<and> (WorkflowInput.type i = Value ''boolean'' \<longrightarrow>
              map_of (own created) (WorkflowInput.name i) =
                Some (SelectPrompt (''Input '' @ WorkflowInput.name i)
                        [SelectOption ''true'' ''True'', SelectOption ''false'' ''False'']
                        (WorkflowInput.default i)))
         \<and> (WorkflowInput.type i = Value ''choice'' \<longrightarrow>
              map_of (own created) (WorkflowInput.name i) =
                Some (SelectPrompt (''Input '' @ WorkflowInput.name i)
                        (map (\<lambda>opt. SelectOption opt opt)
                           (case WorkflowInput.options i of Value opts \<Rightarrow> opts | _ \<Rightarrow> []))
                        (WorkflowInput.default i)))
         \<and> (WorkflowInput.type i
               \<notin> {Value ''string'', Value ''number'', Value ''environment'', Value ''boolean'',
                   Value ''choice''} \<longrightarrow>
              map_of (own created) (WorkflowInput.name i) = None)"
  proof
    fix i assume "i \<in> set specs"
    with assms(1) entries
    have entry: "map_of (own created) (WorkflowInput.name i) = switch_case i"
      by (rule entries_of_distinct)
    show "(WorkflowInput.type i \<in> {Value ''string'', Value ''number'', Value ''environment''} \<longrightarrow>
              map_of (own created) (WorkflowInput.name i) =
                Some (TextPrompt (''Input '' @ WorkflowInput.name i)
                        (''Required? '' @
                           (case WorkflowInput.required i of
                              Undefined \<Rightarrow> ''undefined''
                            | Null \<Rightarrow> ''null''
                            | Value flag \<Rightarrow> if flag then ''true'' else ''false''))
                        (WorkflowInput.default i)))
         \<and> (WorkflowInput.type i = Value ''boolean'' \<longrightarrow>
              map_of (own created) (WorkflowInput.name i) =
                Some (SelectPrompt (''Input '' @ WorkflowInput.name i)
                        [SelectOption ''true'' ''True'', SelectOption ''false'' ''False'']
                        (WorkflowInput.default i)))
         \<and> (WorkflowInput.type i = Value ''choice'' \<longrightarrow>
              map_of (own created) (WorkflowInput.name i) =
                Some (SelectPrompt (''Input '' @ WorkflowInput.name i)
                        (map (\<lambda>opt. SelectOption opt opt)
                           (case WorkflowInput.options i of Value opts \<Rightarrow> opts | _ \<Rightarrow> []))
                        (WorkflowInput.default i)))
         \<and> (WorkflowInput.type i
               \<notin> {Value ''string'', Value ''number'', Value ''environment'', Value ''boolean'',
                   Value ''choice''} \<longrightarrow>
              map_of (own created) (WorkflowInput.name i) = None)"
      unfolding entry by (auto simp add: switch_case_def split: js_optional.splits)
  qed
  from built proto keys order others prompts show ?thesis
    by blast
qed

text \<open>
  The prompts built for six inputs with distinct names, one of them of an unrecognized
  type and two of them named by an array index.
\<close>

theorem buildInputPrompts_distinct_names_witness:
  "distinct (map WorkflowInput.name example_inputs)
   \<and> ''__proto__'' \<notin> WorkflowInput.name ` set (filter has_case example_inputs)
   \<and> (\<exists>createdGroup.
         buildInputPrompts example_inputs = (Inr createdGroup, [''Invalid Input Type !''])
       \<and> \<not> prototype_replaced createdGroup
       \<and> mset (map fst (own createdGroup)) =
           mset [''version'', ''debug'', ''10'', ''environment'', ''2'']
       \<and> sorted_wrt key_order (map fst (own createdGroup))
       \<and> filter (\<lambda>k. \<not> is_array_index k) (map fst (own createdGroup)) =
           [''version'', ''debug'', ''environment'']
       \<and> map_of (own createdGroup) ''version''
           = Some (TextPrompt ''Input version'' ''Required? true'' ''1.0.0'')
       \<and> map_of (own createdGroup) ''debug''
           = Some (SelectPrompt ''Input debug''
                     [SelectOption ''true'' ''True'', SelectOption ''false'' ''False''] ''false'')
       \<and> map_of (own createdGroup) ''note'' = None
       \<and> map_of (own createdGroup) ''10''
           = Some (TextPrompt ''Input 10'' ''Required? undefined'' ''30'')
       \<and> map_of (own createdGroup) ''environment''
           = Some (SelectPrompt ''Input environment''
                     [SelectOption ''dev'' ''dev'', SelectOption ''staging'' ''staging'',
                      SelectOption ''prod'' ''prod''] ''dev'')
       \<and> map_of (own createdGroup) ''2''
           = Some (TextPrompt ''Input 2'' ''Required? null'' ''production''))
   \<and> buildInputPrompts example_inputs =
       (Inr \<lparr>own =
               [(''2'', TextPrompt ''Input 2'' ''Required? null'' ''production''),
                (''10'', TextPrompt ''Input 10'' ''Required? undefined'' ''30''),
                (''version'', TextPrompt ''Input version'' ''Required? true'' ''1.0.0''),
                (''debug'', SelectPrompt ''Input debug''
                   [SelectOption ''true'' ''True'', SelectOption ''false'' ''False''] ''false''),
                (''environment'', SelectPrompt ''Input environment''
                   [SelectOption ''dev'' ''dev'', SelectOption ''staging'' ''staging'',
                    SelectOption ''prod'' ''prod''] ''dev'')],
             prototype_replaced = False\<rparr>,
        [''Invalid Input Type !''])"
proof -
  have names: "distinct (map WorkflowInput.name example_inputs)"
    by (simp add: example_inputs_def)
  have no_proto: "''__proto__'' \<notin> WorkflowInput.name ` set (filter has_case example_inputs)"
    by (simp add: example_inputs_def has_case_def)
  have is_index: "is_array_index ''10''" "is_array_index ''2''"
    "\<not> is_array_index ''version''" "\<not> is_array_index ''debug''"
    "\<not> is_array_index ''environment''"
    by (simp_all add: is_array_index_def is_digit_def index_value_def)
  have index_values: "index_value ''10'' = 10" "index_value ''2'' = 2"
    by (simp_all add: index_value_def)
  have built: "buildInputPrompts example_inputs =
       (Inr \<lparr>own =
               [(''2'', TextPrompt ''Input 2'' ''Required? null'' ''production''),
                (''10'', TextPrompt ''Input 10'' ''Required? undefined'' ''30''),
                (''version'', TextPrompt ''Input version'' ''Required? true'' ''1.0.0''),
                (''debug'', SelectPrompt ''Input debug''
                   [SelectOption ''true'' ''True'', SelectOption ''false'' ''False''] ''false''),
                (''environment'', SelectPrompt ''Input environment''
                   [SelectOption ''dev'' ''dev'', SelectOption ''staging'' ''staging'',
                    SelectOption ''prod'' ''prod''] ''dev'')],
             prototype_replaced = False\<rparr>,
        [''Invalid Input Type !''])"
    by (simp add: buildInputPrompts_def example_inputs_def switch_case_def set_property_def
          create_property_def is_index index_values)
  from buildInputPrompts_distinct_names [OF names no_proto] names no_proto built
  show ?thesis
    by (simp add: example_inputs_def has_case_def is_index)
qed

text \<open>
  C6 as stated fails for a list in which inputs share a name, and for an input named
  \<^verbatim>\<open>__proto__\<close>. Of three inputs named \<^verbatim>\<open>target\<close>, the first two have the types \<^verbatim>\<open>string\<close>
  and \<^verbatim>\<open>boolean\<close> and the third an unrecognized type: the returned record has a single
  prompt for the two recognized inputs (the later assignment replaces the earlier one),
  and it has an entry under the name of the third input. For a single input of type
  \<^verbatim>\<open>string\<close> named \<^verbatim>\<open>__proto__\<close> the assignment replaces the prototype of the record: the
  record has no entry, although the type is recognized and no diagnostic is emitted.
\<close>

theorem buildInputPrompts_same_name_or_proto:
  "buildInputPrompts example_inputs_same_name =
     (Inr \<lparr>own =
             [(''target'', SelectPrompt ''Input target''
                 [SelectOption ''true'' ''True'', SelectOption ''false'' ''False''] ''true'')],
           prototype_replaced = False\<rparr>,
      [''Invalid Input Type !''])
   \<and> map WorkflowInput.name example_inputs_same_name = [''target'', ''target'', ''target'']
   \<and> map WorkflowInput.type example_inputs_same_name =
       [Value ''string'', Value ''boolean'', Value ''text'']
   \<and> map has_case example_inputs_same_name = [True, True, False]
   \<and> buildInputPrompts example_inputs_proto =
       (Inr \<lparr>own = [], prototype_replaced = True\<rparr>, [])
   \<and> map WorkflowInput.name example_inputs_proto = [''__proto__'']
   \<and> map WorkflowInput.type example_inputs_proto = [Value ''string'']
   \<and> map has_case example_inputs_proto = [True]"
  by (simp add: buildInputPrompts_def example_inputs_same_name_def example_inputs_proto_def
        switch_case_def has_case_def set_property_def create_property_def is_array_index_def
        is_digit_def)
section \<open>Properties of bookmark persistence\<close>

lemma Array_find_None: "Array_find p xs = None \<longleftrightarrow> (\<forall>x \<in> set xs. \<not> p x)"
  by (induction xs) auto

lemma Array_find_Some:
  "Array_find p xs = Some i \<Longrightarrow> i < length xs \<and> p (xs ! i) \<and> (\<forall>j < i. \<not> p (xs ! j))"
proof (induction xs arbitrary: i)
  case Nil
  then show ?case by simp
next
  case (Cons x xs)
  show ?case
  proof (cases "p x")
    case True
    with Cons.prems show ?thesis by simp
  next
    case False
    with Cons.prems obtain k where k: "Array_find p xs = Some k" and i: "i = Suc k"
      by auto
    from Cons.IH [OF k] False i show ?thesis
      by (auto simp add: nth_Cons split: nat.splits)
  qed
qed

lemma push_ensure_bookmarks:
  "push_bookmark b (ensure_bookmarks r) =
     r\<lparr>bookmarks := Some ((case bookmarks r of None \<Rightarrow> [] | Some bs \<Rightarrow> bs) @ [b])\<rparr>"
  by (cases "bookmarks r") (simp_all add: push_bookmark_def ensure_bookmarks_def)

lemma saveBookmark_found:
  assumes "files fs configPath = Some configText"
      and "parseYaml configText = Inr config"
      and "Array_find (\<lambda>r. Repository.name r = repoName) (repos config) = Some i"
  shows "saveBookmark parseYaml stringifyYaml configPath repoName bookmark fs =
     (case writeFile configPath
        (stringifyYaml
           (config\<lparr>repos := (repos config)
              [i := (repos config ! i)\<lparr>bookmarks :=
                      Some ((case bookmarks (repos config ! i) of None \<Rightarrow> [] | Some bs \<Rightarrow> bs)
                            @ [bookmark])\<rparr>]\<rparr>))
        fs of
        Inl e \<Rightarrow> (Inl e, fs)
      | Inr saved \<Rightarrow> (Inr (), saved))"
  using assms by (simp add: saveBookmark_def readFile_def push_ensure_bookmarks)

lemma saveBookmark_first_match:
  assumes "repoName \<in> Repository.name ` set (repos config)"
  obtains i where "Array_find (\<lambda>r. Repository.name r = repoName) (repos config) = Some i"
    and "i < length (repos config)" and "Repository.name (repos config ! i) = repoName"
    and "\<forall>j < i. Repository.name (repos config ! j) \<noteq> repoName"
proof -
  from assms have "Array_find (\<lambda>r. Repository.name r = repoName) (repos config) \<noteq> None"
    by (auto simp add: Array_find_None)
  then obtain i where "Array_find (\<lambda>r. Repository.name r = repoName) (repos config) = Some i"
    by auto
  with Array_find_Some [OF this] that show thesis by blast
qed

lemma example_read:
  "files example_fs ''./config.yml'' = Some example_config_text"
  by (simp add: example_fs_def)

lemma example_parse:
  "example_parseYaml example_config_text = Inr example_config"
  by (simp add: example_parseYaml_def)



text \<open>
  C9. Frame property of a successful save: the configuration that is serialized and
  written is the one that was read, except that the first repository with the given name
  has the new bookmark at the end of its bookmark list. Every other repository is equal
  to its parsed form, and the name and the branches of the updated repository are
  unchanged. The call succeeds with this one write when the file system accepts the
  write, and fails with the file system's error and no write otherwise.
\<close>

theorem saveBookmark_frame:
  assumes "files fs configPath = Some configText"
      and "parseYaml configText = Inr config"
      and "repoName \<in> Repository.name ` set (repos config)"
  shows "\<exists>i written.
           i < length (repos config)
         \<and> Repository.name (repos config ! i) = repoName
         \<and> (\<forall>j < i. Repository.name (repos config ! j) \<noteq> repoName)
         \<and> saveBookmark parseYaml stringifyYaml configPath repoName bookmark fs =
             (case write_errors fs configPath of
                None \<Rightarrow>
                  (Inr (),
                   fs\<lparr>files := (files fs)(configPath \<mapsto> stringifyYaml written),
                      writes := writes fs @ [(configPath, stringifyYaml written)]\<rparr>)
              | Some msg \<Rightarrow> (Inl (ExternalError msg), fs))
         \<and> written = config\<lparr>repos := (repos config)
              [i := (repos config ! i)\<lparr>bookmarks :=
                      Some ((case bookmarks (repos config ! i) of None \<Rightarrow> [] | Some bs \<Rightarrow> bs)
                            @ [bookmark])\<rparr>]\<rparr>
         \<and> length (repos written) = length (repos config)
         \<and> (\<forall>j < length (repos config). j \<noteq> i \<longrightarrow> repos written ! j = repos config ! j)
         \<and> Repository.name (repos written ! i) = Repository.name (repos config ! i)
         \<and> branches (repos written ! i) = branches (repos config ! i)"
proof -
  from assms(3) obtain i
    where found: "Array_find (\<lambda>r. Repository.name r = repoName) (repos config) = Some i"
      and i: "i < length (repos config)" "Repository.name (repos config ! i) = repoName"
             "\<forall>j < i. Repository.name (repos config ! j) \<noteq> repoName"
    by (rule saveBookmark_first_match)
  let ?written = "config\<lparr>repos := (repos config)
              [i := (repos config ! i)\<lparr>bookmarks :=
                      Some ((case bookmarks (repos config ! i) of None \<Rightarrow> [] | Some bs \<Rightarrow> bs)
                            @ [bookmark])\<rparr>]\<rparr>"
  from assms(1,2) found
  have "saveBookmark parseYaml stringifyYaml configPath repoName bookmark fs =
          (case writeFile configPath (stringifyYaml ?written) fs of
             Inl e \<Rightarrow> (Inl e, fs)
           | Inr saved \<Rightarrow> (Inr (), saved))"
    by (rule saveBookmark_found)
  then have "saveBookmark parseYaml stringifyYaml configPath repoName bookmark fs =
             (case write_errors fs configPath of
                None \<Rightarrow>
                  (Inr (),
                   fs\<lparr>files := (files fs)(configPath \<mapsto> stringifyYaml ?written),
                      writes := writes fs @ [(configPath, stringifyYaml ?written)]\<rparr>)
              | Some msg \<Rightarrow> (Inl (ExternalError msg), fs))"
    by (simp add: writeFile_def split: option.splits)
  moreover have "\<forall>j < length (repos config). j \<noteq> i \<longrightarrow> repos ?written ! j = repos config ! j"
    by simp
  moreover have "Repository.name (repos ?written ! i) = Repository.name (repos config ! i)"
    "branches (repos ?written ! i) = branches (repos config ! i)"
    using i(1) by simp_all
  ultimately show ?thesis using i
    by (intro exI [of _ i] exI [of _ ?written]) simp
qed

text \<open>A save for the repository of the example configuration that has no bookmarks key: the other repository is written back as it was read.\<close>

theorem saveBookmark_frame_witness:
  "files example_fs ''./config.yml'' = Some example_config_text
   \<and> example_parseYaml example_config_text = Inr example_config
   \<and> ''owner/repo2'' \<in> Repository.name ` set (repos example_config)
   \<and> (\<exists>written.
         saveBookmark example_parseYaml example_stringifyYaml ''./config.yml'' ''owner/repo2''
                example_bookmark_new example_fs
           = (Inr (),
              example_fs\<lparr>files := (files example_fs)(''./config.yml'' \<mapsto> example_stringifyYaml written),
                 writes := writes example_fs @ [(''./config.yml'', example_stringifyYaml written)]\<rparr>)
       \<and> length (repos written) = 2
       \<and> repos written ! 0 = repos example_config ! 0
       \<and> repos written ! 1 =
           \<lparr>Repository.name = ''owner/repo2'', branches = [''master''],
            bookmarks = Some [example_bookmark_new]\<rparr>)
   \<and> writes (snd (saveBookmark example_parseYaml example_stringifyYaml ''./config.yml''
         ''owner/repo2'' example_bookmark_new example_fs))
      = [(''./config.yml'',
          ''repos: [{name: owner/repo1, branches: [main], bookmarks: [{nickname: Existing Bookmark, workflow: old.yml, branch: main, inputs: {key: value}}]}, {name: owner/repo2, branches: [master], bookmarks: [{nickname: New Bookmark, workflow: new.yml, branch: dev, inputs: {env: prod}}]}]'')]"
proof -
  have present: "''owner/repo2'' \<in> Repository.name ` set (repos example_config)"
    by (simp add: example_config_def)
  from example_read example_parse present
  have "\<exists>i written.
           i < length (repos example_config)
         \<and> Repository.name (repos example_config ! i) = ''owner/repo2''
         \<and> (\<forall>j < i. Repository.name (repos example_config ! j) \<noteq> ''owner/repo2'')
         \<and> saveBookmark example_parseYaml example_stringifyYaml ''./config.yml'' ''owner/repo2''
                  example_bookmark_new example_fs =
             (case write_errors example_fs ''./config.yml'' of
                None \<Rightarrow>
                  (Inr (),
                   example_fs\<lparr>files := (files example_fs)(''./config.yml'' \<mapsto> example_stringifyYaml written),
                      writes := writes example_fs @ [(''./config.yml'', example_stringifyYaml written)]\<rparr>)
              | Some msg \<Rightarrow> (Inl (ExternalError msg), example_fs))
         \<and> written = example_config\<lparr>repos := (repos example_config)
              [i := (repos example_config ! i)\<lparr>bookmarks :=
                      Some ((case bookmarks (repos example_config ! i) of None \<Rightarrow> [] | Some bs \<Rightarrow> bs)
                            @ [example_bookmark_new])\<rparr>]\<rparr>
         \<and> length (repos written) = length (repos example_config)
         \<and> (\<forall>j < length (repos example_config). j \<noteq> i \<longrightarrow> repos written ! j = repos example_config ! j)
         \<and> Repository.name (repos written ! i) = Repository.name (repos example_config ! i)
         \<and> branches (repos written ! i) = branches (repos example_config ! i)"
    by (rule saveBookmark_frame)
  then obtain i written where
        i: "i < length (repos example_config)" "Repository.name (repos example_config ! i) = ''owner/repo2''"
    and outcome: "saveBookmark example_parseYaml example_stringifyYaml ''./config.yml'' ''owner/repo2''
                  example_bookmark_new example_fs =
             (case write_errors example_fs ''./config.yml'' of
                None \<Rightarrow>
                  (Inr (),
                   example_fs\<lparr>files := (files example_fs)(''./config.yml'' \<mapsto> example_stringifyYaml written),
                      writes := writes example_fs @ [(''./config.yml'', example_stringifyYaml written)]\<rparr>)
              | Some msg \<Rightarrow> (Inl (ExternalError msg), example_fs))"
    and written: "written = example_config\<lparr>repos := (repos example_config)
              [i := (repos example_config ! i)\<lparr>bookmarks :=
                      Some ((case bookmarks (repos example_config ! i) of None \<Rightarrow> [] | Some bs \<Rightarrow> bs)
                            @ [example_bookmark_new])\<rparr>]\<rparr>"
    by blast
  have "write_errors example_fs ''./config.yml'' = None"
    by (simp add: example_fs_def)
  with outcome
  have saved: "saveBookmark example_parseYaml example_stringifyYaml ''./config.yml'' ''owner/repo2''
                  example_bookmark_new example_fs =
             (Inr (),
              example_fs\<lparr>files := (files example_fs)(''./config.yml'' \<mapsto> example_stringifyYaml written),
                 writes := writes example_fs @ [(''./config.yml'', example_stringifyYaml written)]\<rparr>)"
    by simp
  from i have "i = 1"
    by (cases i) (auto simp add: example_config_def nth_Cons split: nat.splits)
  with written have "length (repos written) = 2
       \<and> repos written ! 0 = repos example_config ! 0
       \<and> repos written ! 1 =
           \<lparr>Repository.name = ''owner/repo2'', branches = [''master''],
            bookmarks = Some [example_bookmark_new]\<rparr>"
    by (simp add: example_config_def)
  with saved have ex: "\<exists>written.
         saveBookmark example_parseYaml example_stringifyYaml ''./config.yml'' ''owner/repo2''
                example_bookmark_new example_fs
           = (Inr (),
              example_fs\<lparr>files := (files example_fs)(''./config.yml'' \<mapsto> example_stringifyYaml written),
                 writes := writes example_fs @ [(''./config.yml'', example_stringifyYaml written)]\<rparr>)
       \<and> length (repos written) = 2
       \<and> repos written ! 0 = repos example_config ! 0
       \<and> repos written ! 1 =
           \<lparr>Repository.name = ''owner/repo2'', branches = [''master''],
            bookmarks = Some [example_bookmark_new]\<rparr>"
    by blast
  have content: "writes (snd (saveBookmark example_parseYaml example_stringifyYaml ''./config.yml''
         ''owner/repo2'' example_bookmark_new example_fs))
      = [(''./config.yml'',
          ''repos: [{name: owner/repo1, branches: [main], bookmarks: [{nickname: Existing Bookmark, workflow: old.yml, branch: main, inputs: {key: value}}]}, {name: owner/repo2, branches: [master], bookmarks: [{nickname: New Bookmark, workflow: new.yml, branch: dev, inputs: {env: prod}}]}]'')]"
    by (simp add: saveBookmark_def readFile_def writeFile_def example_read example_parse
          example_config_def example_fs_def push_bookmark_def ensure_bookmarks_def
          example_stringifyYaml_def example_stringify_repo_def example_stringify_bookmark_def
          example_bookmark_existing_def example_bookmark_new_def)
  from example_read example_parse present ex content show ?thesis by blast
qed
section \<open>Properties of the display formatter\<close>

lemma split_on_no_sep: "c \<notin> set l \<Longrightarrow> split_on c l = [l]"
  by (induction l) auto

lemma split_on_append: "c \<notin> set l \<Longrightarrow> split_on c (l @ c # rest) = l # split_on c rest"
  by (induction l) auto

lemma split_on_join:
  "ls \<noteq> [] \<Longrightarrow> \<forall>l \<in> set ls. c \<notin> set l \<Longrightarrow> split_on c (join [c] ls) = ls"
proof (induction "[c]" ls rule: join.induct)
  case 1
  then show ?case by simp
next
  case (2 x)
  then show ?case by (simp add: split_on_no_sep)
next
  case (3 x y ys)
  then show ?case by (simp add: split_on_append)
qed

lemma prefix_join: "prefix x (join sep (x # xs))"
  by (cases xs) simp_all

lemma input_line_eq:
  "input_line (k, v) = ''  '' @ k @ replicate (15 - length k) CHR '' '' @ '' : '' @ ToString v"
  by (simp add: input_line_def padEnd_def)

text \<open>
  C8 (as amended). The confirmation summary is the newline-joined list of the lines
  \<^verbatim>\<open>Running Workflow : <name>\<close>, the repository line, the branch line, an empty line, the
  header \<^verbatim>\<open>Inputs :\<close> and then one line per input entry, in iteration order, made of two
  spaces, the key followed by spaces up to a width of 15 characters (a longer key is
  not cut), the separator \<^verbatim>\<open> : \<close> and the value. The summary begins with the workflow
  line, and when no field contains a newline its lines are exactly these.
\<close>

theorem buildDisplayInfo_lines:
  "buildDisplayInfo w r b m =
     join newline
       ([''Running Workflow : '' @ w, ''Repo             : '' @ r, ''Branch           : '' @ b,
         [], ''Inputs :'']
        @ map (\<lambda>(k, v). ''  '' @ k @ replicate (15 - length k) CHR '' '' @ '' : '' @ ToString v)
            (Object_entries m))
   \<and> prefix (''Running Workflow : '' @ w) (buildDisplayInfo w r b m)
   \<and> length (padEnd 15 key) = max 15 (length key)
   \<and> (CHR 0x0A \<notin> set w \<union> set r \<union> set b
        \<and> (\<forall>(k, v) \<in> set (Object_entries m). CHR 0x0A \<notin> set k \<union> set (ToString v))
      \<longrightarrow> split_on CHR 0x0A (buildDisplayInfo w r b m) =
            [''Running Workflow : '' @ w, ''Repo             : '' @ r, ''Branch           : '' @ b,
             [], ''Inputs :'']
            @ map (\<lambda>(k, v). ''  '' @ k @ replicate (15 - length k) CHR '' '' @ '' : '' @ ToString v)
                (Object_entries m))"
proof (intro conjI impI)
  have lines: "display_lines w r b m =
       [''Running Workflow : '' @ w, ''Repo             : '' @ r, ''Branch           : '' @ b,
         [], ''Inputs :'']
        @ map (\<lambda>(k, v). ''  '' @ k @ replicate (15 - length k) CHR '' '' @ '' : '' @ ToString v)
            (Object_entries m)"
    by (simp add: display_lines_def input_line_def padEnd_def)
  then show "buildDisplayInfo w r b m =
     join newline
       ([''Running Workflow : '' @ w, ''Repo             : '' @ r, ''Branch           : '' @ b,
         [], ''Inputs :'']
        @ map (\<lambda>(k, v). ''  '' @ k @ replicate (15 - length k) CHR '' '' @ '' : '' @ ToString v)
            (Object_entries m))"
    by (simp add: buildDisplayInfo_def)
  show "prefix (''Running Workflow : '' @ w) (buildDisplayInfo w r b m)"
    unfolding buildDisplayInfo_def display_lines_def append_Cons by (rule prefix_join)
  show "length (padEnd 15 key) = max 15 (length key)"
    by (simp add: padEnd_def)
  assume free: "CHR 0x0A \<notin> set w \<union> set r \<union> set b
        \<and> (\<forall>(k, v) \<in> set (Object_entries m). CHR 0x0A \<notin> set k \<union> set (ToString v))"
  have "\<forall>l \<in> set (display_lines w r b m). CHR 0x0A \<notin> set l"
    using free unfolding lines by auto
  moreover have "display_lines w r b m \<noteq> []"
    by (simp add: display_lines_def)
  ultimately have "split_on CHR 0x0A (join [CHR 0x0A] (display_lines w r b m)) = display_lines w r b m"
    by (rule split_on_join [rotated])
  then show "split_on CHR 0x0A (buildDisplayInfo w r b m) =
            [''Running Workflow : '' @ w, ''Repo             : '' @ r, ''Branch           : '' @ b,
             [], ''Inputs :'']
            @ map (\<lambda>(k, v). ''  '' @ k @ replicate (15 - length k) CHR '' '' @ '' : '' @ ToString v)
                (Object_entries m)"
    by (simp add: buildDisplayInfo_def newline_def lines)
qed

text \<open>The lines of the summary of the test suite.\<close>

theorem buildDisplayInfo_lines_witness:
  "CHR 0x0A \<notin> set ''Deploy'' \<union> set ''owner/repo'' \<union> set ''main''
   \<and> list_all (\<lambda>(k, v). CHR 0x0A \<notin> set k \<union> set (ToString v)) (Object_entries example_inputGroup)
   \<and> split_on CHR 0x0A (buildDisplayInfo ''Deploy'' ''owner/repo'' ''main'' example_inputGroup) =
       [''Running Workflow : Deploy'', ''Repo             : owner/repo'',
        ''Branch           : main'', [], ''Inputs :'',
        ''  environment     : prod'', ''  version         : 3.0.0'']"
proof -
  have free: "CHR 0x0A \<notin> set ''Deploy'' \<union> set ''owner/repo'' \<union> set ''main''
        \<and> (\<forall>(k, v) \<in> set (Object_entries example_inputGroup). CHR 0x0A \<notin> set k \<union> set (ToString v))"
    by (simp add: example_inputGroup_def Object_entries_def)
  with buildDisplayInfo_lines [of "''Deploy''" "''owner/repo''" "''main''" example_inputGroup]
  have "split_on CHR 0x0A (buildDisplayInfo ''Deploy'' ''owner/repo'' ''main'' example_inputGroup) =
            [''Running Workflow : '' @ ''Deploy'', ''Repo             : '' @ ''owner/repo'',
             ''Branch           : '' @ ''main'', [], ''Inputs :'']
            @ map (\<lambda>(k, v). ''  '' @ k @ replicate (15 - length k) CHR '' '' @ '' : '' @ ToString v)
                (Object_entries example_inputGroup)"
    by blast
  then show ?thesis
    by (simp add: example_inputGroup_def Object_entries_def numeral_eq_Suc)
qed

text \<open>
  C8 as stated fails: the key is padded at its end, not at its start. For the key
  \<^verbatim>\<open>env\<close> the line has twelve spaces between the key and the separator, and the
  left-padded rendering is not even a suffix of it.
\<close>

theorem buildDisplayInfo_not_left_padded:
  "last (split_on CHR 0x0A (buildDisplayInfo ''Deploy'' ''owner/repo'' ''main'' [(''env'', JString ''x'')]))
     = ''  env             : x''
   \<and> \<not> suffix (spec_left_padded 15 ''env'' @ '' : x'')
         (last (split_on CHR 0x0A
            (buildDisplayInfo ''Deploy'' ''owner/repo'' ''main'' [(''env'', JString ''x'')])))"
proof -
  have line: "last (split_on CHR 0x0A
      (buildDisplayInfo ''Deploy'' ''owner/repo'' ''main'' [(''env'', JString ''x'')]))
     = ''  env             : x''"
    by (simp add: buildDisplayInfo_def display_lines_def input_line_def padEnd_def newline_def
          Object_entries_def numeral_eq_Suc)
  have "\<not> suffix (spec_left_padded 15 ''env'' @ '' : x'') ''  env             : x''"
    by (simp add: spec_left_padded_def suffix_to_prefix numeral_eq_Suc)
  with line show ?thesis by simp
qed

section \<open>The summary shows the inputs that are dispatched\<close>

lemma flag_values_concat:
  "flag_values (concat (map (\<lambda>(k, v). [''-f'', k @ ''='' @ ToString v]) entries))
     = map (\<lambda>(k, v). k @ ''='' @ ToString v) entries"
  by (induction entries) auto

lemma takeWhile_stop: "x \<notin> set k \<Longrightarrow> takeWhile (\<lambda>c. c \<noteq> x) (k @ x # rest) = k"
  by (induction k) auto

lemma assignment_key_eq: "CHR ''='' \<notin> set k \<Longrightarrow> assignment_key (k @ CHR ''='' # v) = k"
  by (simp add: assignment_key_def takeWhile_stop)

lemma strip_end_spaces:
  assumes "k = [] \<or> last k \<noteq> CHR '' ''"
  shows "strip_end (k @ replicate n CHR '' '') = k"
proof -
  have "dropWhile (\<lambda>c. c = CHR '' '') (replicate n CHR '' '' @ rev k) =
        dropWhile (\<lambda>c. c = CHR '' '') (rev k)"
    by (rule dropWhile_append2) simp
  moreover have "dropWhile (\<lambda>c. c = CHR '' '') (rev k) = rev k"
    using assms by (cases "rev k") (auto simp add: last_rev [symmetric] simp del: last_rev)
  ultimately show ?thesis
    by (simp add: strip_end_def)
qed

lemma line_key_eq:
  assumes "CHR '':'' \<notin> set k" and "k = [] \<or> last k \<noteq> CHR '' ''"
  shows "line_key (input_line (k, v)) = k"
proof -
  have "drop 2 (input_line (k, v)) =
        (k @ replicate (Suc (15 - length k)) CHR '' '') @ CHR '':'' # '' '' @ ToString v"
    by (simp add: input_line_eq replicate_append_same)
  moreover have "CHR '':'' \<notin> set (k @ replicate (Suc (15 - length k)) CHR '' '')"
    using assms(1) by simp
  then have "takeWhile (\<lambda>c. c \<noteq> CHR '':'')
          ((k @ replicate (Suc (15 - length k)) CHR '' '') @ CHR '':'' # '' '' @ ToString v) =
        k @ replicate (Suc (15 - length k)) CHR '' ''"
    by (rule takeWhile_stop)
  ultimately have "takeWhile (\<lambda>c. c \<noteq> CHR '':'') (drop 2 (input_line (k, v))) =
        k @ replicate (Suc (15 - length k)) CHR '' ''"
    by (rule trans [OF arg_cong])
  with strip_end_spaces [OF assms(2)] show ?thesis
    by (simp only: line_key_def)
qed

lemma keys_of_arguments_eq:
  assumes "\<forall>(k, v) \<in> set (Object_entries m). CHR ''='' \<notin> set k"
  shows "keys_of_arguments (buildWorkflowRunArgs w r b m) = map fst (Object_entries m)"
proof -
  have "drop 7 (buildWorkflowRunArgs w r b m) =
      concat (map (\<lambda>(k, v). [''-f'', k @ ''='' @ ToString v]) (Object_entries m))"
    by (simp add: buildWorkflowRunArgs_def push_inputs_append)
  then have "keys_of_arguments (buildWorkflowRunArgs w r b m) =
      map assignment_key (map (\<lambda>(k, v). k @ ''='' @ ToString v) (Object_entries m))"
    by (simp only: keys_of_arguments_def flag_values_concat)
  also have "\<dots> = map fst (Object_entries m)"
    using assms by (auto simp add: assignment_key_eq)
  finally show ?thesis .
qed

lemma keys_of_summary_eq:
  assumes "CHR 0x0A \<notin> set w \<union> set r \<union> set b"
      and "\<forall>(k, v) \<in> set (Object_entries m).
             CHR 0x0A \<notin> set k \<union> set (ToString v) \<and> CHR '':'' \<notin> set k
             \<and> (k = [] \<or> last k \<noteq> CHR '' '')"
  shows "keys_of_summary (buildDisplayInfo w r b m) = map fst (Object_entries m)"
proof -
  have "display_lines w r b m \<noteq> []"
    by (simp add: display_lines_def)
  moreover have "\<forall>l \<in> set (display_lines w r b m). CHR 0x0A \<notin> set l"
    using assms by (auto simp add: display_lines_def input_line_eq)
  ultimately have "split_on CHR 0x0A (buildDisplayInfo w r b m) = display_lines w r b m"
    unfolding buildDisplayInfo_def newline_def by (rule split_on_join)
  then have "keys_of_summary (buildDisplayInfo w r b m) =
      map line_key (map input_line (Object_entries m))"
    by (simp add: keys_of_summary_def display_lines_def)
  also have "\<dots> = map fst (Object_entries m)"
    using assms(2) by (auto simp add: line_key_eq)
  finally show ?thesis .
qed

text \<open>
  C10 (as amended). Let the workflow name, the repository and the branch contain no
  newline, and let every input have a key and a value (in its string form) without a
  newline, and a key without \<^verbatim>\<open>=\<close>, without a colon and without a space at its end. Then
  the keys read from the per-input lines of the summary that \<^verbatim>\<open>buildDisplayInfo\<close> returns
  are the keys read from the \<^verbatim>\<open>-f\<close> elements of the argument vector that
  \<^verbatim>\<open>buildWorkflowRunArgs\<close> returns for the same mapping, and both are the keys of the
  mapping in iteration order.
\<close>

theorem display_keys_are_dispatched_keys:
  assumes "CHR 0x0A \<notin> set w \<union> set r \<union> set b"
      and "\<forall>(k, v) \<in> set (Object_entries m).
             CHR 0x0A \<notin> set k \<union> set (ToString v)
             \<and> CHR ''='' \<notin> set k \<and> CHR '':'' \<notin> set k
             \<and> (k = [] \<or> last k \<noteq> CHR '' '')"
  shows "keys_of_summary (buildDisplayInfo w r b m) =
           keys_of_arguments (buildWorkflowRunArgs w r b m)
       \<and> keys_of_summary (buildDisplayInfo w r b m) = map fst (Object_entries m)
       \<and> keys_of_arguments (buildWorkflowRunArgs w r b m) = map fst (Object_entries m)"
proof -
  from assms(2) have "\<forall>(k, v) \<in> set (Object_entries m). CHR ''='' \<notin> set k"
    by auto
  then have arguments:
    "keys_of_arguments (buildWorkflowRunArgs w r b m) = map fst (Object_entries m)"
    by (rule keys_of_arguments_eq)
  from assms(2) have "\<forall>(k, v) \<in> set (Object_entries m).
             CHR 0x0A \<notin> set k \<union> set (ToString v) \<and> CHR '':'' \<notin> set k
             \<and> (k = [] \<or> last k \<noteq> CHR '' '')"
    by auto
  with assms(1)
  have summary: "keys_of_summary (buildDisplayInfo w r b m) = map fst (Object_entries m)"
    by (rule keys_of_summary_eq)
  from arguments summary show ?thesis
    by simp
qed

text \<open>
  The keys read back from the summary and from the argument vector of four inputs, among
  them a key of more than 15 characters, a key with a space in it and the empty key.
\<close>

theorem display_keys_are_dispatched_keys_witness:
  "CHR 0x0A \<notin> set ''Deploy'' \<union> set ''owner/repo'' \<union> set ''main''
   \<and> list_all (\<lambda>(k, v). CHR 0x0A \<notin> set k \<union> set (ToString v)
                  \<and> CHR ''='' \<notin> set k \<and> CHR '':'' \<notin> set k
                  \<and> (k = [] \<or> last k \<noteq> CHR '' ''))
       (Object_entries example_inputGroup_wide)
   \<and> keys_of_summary (buildDisplayInfo ''Deploy'' ''owner/repo'' ''main'' example_inputGroup_wide) =
       keys_of_arguments (buildWorkflowRunArgs ''Deploy'' ''owner/repo'' ''main'' example_inputGroup_wide)
   \<and> keys_of_summary (buildDisplayInfo ''Deploy'' ''owner/repo'' ''main'' example_inputGroup_wide) =
       [''environment'', ''release version number'', ''dry run'', []]
   \<and> keys_of_arguments (buildWorkflowRunArgs ''Deploy'' ''owner/repo'' ''main'' example_inputGroup_wide) =
       [''environment'', ''release version number'', ''dry run'', []]"
proof -
  have fields: "CHR 0x0A \<notin> set ''Deploy'' \<union> set ''owner/repo'' \<union> set ''main''"
    by simp
  have entries: "list_all (\<lambda>(k, v). CHR 0x0A \<notin> set k \<union> set (ToString v)
                  \<and> CHR ''='' \<notin> set k \<and> CHR '':'' \<notin> set k
                  \<and> (k = [] \<or> last k \<noteq> CHR '' ''))
       (Object_entries example_inputGroup_wide)"
    by (simp add: example_inputGroup_wide_def Object_entries_def)
  then have "\<forall>(k, v) \<in> set (Object_entries example_inputGroup_wide).
             CHR 0x0A \<notin> set k \<union> set (ToString v)
             \<and> CHR ''='' \<notin> set k \<and> CHR '':'' \<notin> set k
             \<and> (k = [] \<or> last k \<noteq> CHR '' '')"
    by (simp only: list_all_iff)
  with fields
  have "keys_of_summary (buildDisplayInfo ''Deploy'' ''owner/repo'' ''main'' example_inputGroup_wide) =
           keys_of_arguments (buildWorkflowRunArgs ''Deploy'' ''owner/repo'' ''main'' example_inputGroup_wide)
       \<and> keys_of_summary (buildDisplayInfo ''Deploy'' ''owner/repo'' ''main'' example_inputGroup_wide) =
           map fst (Object_entries example_inputGroup_wide)
       \<and> keys_of_arguments (buildWorkflowRunArgs ''Deploy'' ''owner/repo'' ''main'' example_inputGroup_wide) =
           map fst (Object_entries example_inputGroup_wide)"
    by (rule display_keys_are_dispatched_keys)
  moreover have "map fst (Object_entries example_inputGroup_wide) =
       [''environment'', ''release version number'', ''dry run'', []]"
    by (simp add: example_inputGroup_wide_def Object_entries_def)
  ultimately show ?thesis
    using fields entries by simp
qed

text \<open>
  C10 as stated fails: the two outputs are built by concatenation, without quoting, and
  the key of an input cannot always be read back from them. For the input \<^verbatim>\<open>a=b\<close> with
  the value \<^verbatim>\<open>c\<close> the summary shows the key \<^verbatim>\<open>a=b\<close>, and the argument vector is the one of
  the input \<^verbatim>\<open>a\<close> with the value \<^verbatim>\<open>b=c\<close>: the input dispatched is \<^verbatim>\<open>a\<close>. The summary of
  a key that ends with a space is the summary of the key without it, while the arguments
  differ. A key with a colon is shown up to the colon. A newline in a value or in a key
  adds a line to the summary, which shows two inputs where one is dispatched, and a
  newline in the workflow name, the repository or the branch moves the header line among
  the per-input lines.
\<close>

theorem display_keys_differ_from_dispatched_keys:
  "keys_of_summary (buildDisplayInfo ''Deploy'' ''owner/repo'' ''main'' [(''a=b'', JString ''c'')])
     = [''a=b'']
   \<and> keys_of_arguments (buildWorkflowRunArgs ''Deploy'' ''owner/repo'' ''main'' [(''a=b'', JString ''c'')])
     = [''a'']
   \<and> buildWorkflowRunArgs ''Deploy'' ''owner/repo'' ''main'' [(''a=b'', JString ''c'')]
     = buildWorkflowRunArgs ''Deploy'' ''owner/repo'' ''main'' [(''a'', JString ''b=c'')]
   \<and> buildDisplayInfo ''Deploy'' ''owner/repo'' ''main'' [(''a '', JString ''c'')]
     = buildDisplayInfo ''Deploy'' ''owner/repo'' ''main'' [(''a'', JString ''c'')]
   \<and> keys_of_summary (buildDisplayInfo ''Deploy'' ''owner/repo'' ''main'' [(''a '', JString ''c'')])
     = [''a'']
   \<and> keys_of_arguments (buildWorkflowRunArgs ''Deploy'' ''owner/repo'' ''main'' [(''a '', JString ''c'')])
     = [''a '']
   \<and> keys_of_summary (buildDisplayInfo ''Deploy'' ''owner/repo'' ''main'' [(''a:b'', JString ''c'')])
     = [''a'']
   \<and> keys_of_arguments (buildWorkflowRunArgs ''Deploy'' ''owner/repo'' ''main'' [(''a:b'', JString ''c'')])
     = [''a:b'']
   \<and> keys_of_summary (buildDisplayInfo ''Deploy'' ''owner/repo'' ''main''
        [(''a'', JString (''x'' @ [CHR 0x0A] @ ''  b : y''))])
     = [''a'', ''b'']
   \<and> keys_of_arguments (buildWorkflowRunArgs ''Deploy'' ''owner/repo'' ''main''
        [(''a'', JString (''x'' @ [CHR 0x0A] @ ''  b : y''))])
     = [''a'']
   \<and> keys_of_summary (buildDisplayInfo ''Deploy'' ''owner/repo'' ''main''
        [(''a'' @ [CHR 0x0A] @ ''b'', JString ''c'')])
     = [''a'', []]
   \<and> keys_of_arguments (buildWorkflowRunArgs ''Deploy'' ''owner/repo'' ''main''
        [(''a'' @ [CHR 0x0A] @ ''b'', JString ''c'')])
     = [''a'' @ [CHR 0x0A] @ ''b'']
   \<and> keys_of_summary (buildDisplayInfo (''Deploy'' @ [CHR 0x0A] @ ''x'') ''owner/repo'' ''main''
        [(''a'', JString ''c'')])
     = [''puts'', ''a'']
   \<and> keys_of_arguments (buildWorkflowRunArgs (''Deploy'' @ [CHR 0x0A] @ ''x'') ''owner/repo'' ''main''
        [(''a'', JString ''c'')])
     = [''a'']
   \<and> keys_of_summary (buildDisplayInfo ''Deploy'' (''owner/repo'' @ [CHR 0x0A] @ ''x'') ''main''
        [(''a'', JString ''c'')])
     = [''puts'', ''a'']
   \<and> keys_of_arguments (buildWorkflowRunArgs ''Deploy'' (''owner/repo'' @ [CHR 0x0A] @ ''x'') ''main''
        [(''a'', JString ''c'')])
     = [''a'']
   \<and> keys_of_summary (buildDisplayInfo ''Deploy'' ''owner/repo'' (''main'' @ [CHR 0x0A] @ ''x'')
        [(''a'', JString ''c'')])
     = [''puts'', ''a'']
   \<and> keys_of_arguments (buildWorkflowRunArgs ''Deploy'' ''owner/repo'' (''main'' @ [CHR 0x0A] @ ''x'')
        [(''a'', JString ''c'')])
     = [''a'']"
  by code_simp
end
